theory Spec2Isabelle
  imports Complex_Main
begin

section \<open>JavaScript numbers\<close>

text \<open>
  The script computes its geometry with JavaScript numbers. A number is modelled as a
  real, or one of the three non-finite values. Rounding to 64-bit precision, overflow
  and underflow are not modelled, and the sign of a zero is not: a zero divisor counts as
  the positive zero.
\<close>

datatype jsnum = Fin real | PInf | NInf | NaN

fun js_neg :: "jsnum \<Rightarrow> jsnum" where
  "js_neg (Fin a) = Fin (- a)"
| "js_neg PInf = NInf"
| "js_neg NInf = PInf"
| "js_neg NaN = NaN"

fun js_add :: "jsnum \<Rightarrow> jsnum \<Rightarrow> jsnum" where
  "js_add (Fin a) (Fin b) = Fin (a + b)"
| "js_add NaN _ = NaN"
| "js_add _ NaN = NaN"
| "js_add PInf NInf = NaN"
| "js_add NInf PInf = NaN"
| "js_add PInf _ = PInf"
| "js_add _ PInf = PInf"
| "js_add NInf _ = NInf"
| "js_add _ NInf = NInf"

definition js_sub :: "jsnum \<Rightarrow> jsnum \<Rightarrow> jsnum" where
  "js_sub a b = js_add a (js_neg b)"

text \<open>The sign of a number that is not \<open>NaN\<close>, zero counting as positive.\<close>

fun js_positive :: "jsnum \<Rightarrow> bool" where
  "js_positive (Fin a) = (0 \<le> a)"
| "js_positive PInf = True"
| "js_positive NInf = False"
| "js_positive NaN = False"

fun js_mul :: "jsnum \<Rightarrow> jsnum \<Rightarrow> jsnum" where
  "js_mul (Fin a) (Fin b) = Fin (a * b)"
| "js_mul NaN _ = NaN"
| "js_mul _ NaN = NaN"
| "js_mul a b =
     (if a = Fin 0 \<or> b = Fin 0 then NaN
      else if js_positive a = js_positive b then PInf else NInf)"

fun js_div :: "jsnum \<Rightarrow> jsnum \<Rightarrow> jsnum" where
  "js_div (Fin a) (Fin b) =
     (if b \<noteq> 0 then Fin (a / b)
      else if a = 0 then NaN
      else if 0 < a then PInf else NInf)"
| "js_div NaN _ = NaN"
| "js_div _ NaN = NaN"
| "js_div (Fin a) _ = Fin 0"
| "js_div PInf (Fin b) = (if 0 \<le> b then PInf else NInf)"
| "js_div NInf (Fin b) = (if 0 \<le> b then NInf else PInf)"
| "js_div _ _ = NaN"

text \<open>\<open>Math.min\<close> of two numbers: \<open>NaN\<close> when either is.\<close>

fun js_min :: "jsnum \<Rightarrow> jsnum \<Rightarrow> jsnum" where
  "js_min (Fin a) (Fin b) = Fin (min a b)"
| "js_min NaN _ = NaN"
| "js_min _ NaN = NaN"
| "js_min NInf _ = NInf"
| "js_min _ NInf = NInf"
| "js_min PInf b = b"
| "js_min a PInf = a"

text \<open>Truthiness of a number, as \<open>||\<close> tests it: \<open>0\<close> and \<open>NaN\<close> are falsy.\<close>

definition js_or :: "jsnum \<Rightarrow> jsnum \<Rightarrow> jsnum" where
  "js_or a b = (if a = NaN \<or> a = Fin 0 then b else a)"

section \<open>Data\<close>

text \<open>
  The command line options of \<open>main.js\<close>. \<open>opt_padding\<close> is what
  \<open>Number.parseFloat\<close> returned, so it may be \<open>NaN\<close>.
\<close>

record options =
  opt_useA3 :: bool
  opt_debug :: bool
  opt_double :: bool
  opt_padding :: jsnum

text \<open>
  \<open>PageSizes\<close> of the PDF library: each entry is a two-element array, and
  \<open>reverse()\<close> reverses an array in place. The table is therefore a piece of state
  that \<open>pdfToBooklet\<close> reads and updates; it is a parameter of the model.
  \<open>initial_PageSizes\<close> holds the library's values (points, portrait) when the
  script starts.
\<close>

record PageSizes =
  A3 :: "jsnum \<times> jsnum"
  A4 :: "jsnum \<times> jsnum"

definition initial_PageSizes :: PageSizes where
  "initial_PageSizes =
     \<lparr>A3 = (Fin 841.89, Fin 1190.55), A4 = (Fin 595.28, Fin 841.89)\<rparr>"

definition reverse :: "'a \<times> 'a \<Rightarrow> 'a \<times> 'a" where
  "reverse arr = (snd arr, fst arr)"

text \<open>
  A loaded input document is the list of its pages' sizes \<open>(width, height)\<close>; a file
  that cannot be read or parsed is \<open>Corrupt\<close>. \<open>getPage\<close> of the library checks its
  index against the range from 0 to \<open>Math.max(0, pageCount - 1)\<close> and returns that
  element of the page array, so on a document without pages \<open>getPage(0)\<close> returns
  \<open>undefined\<close>, and the call of \<open>getSize\<close> on it is a \<open>TypeError\<close>.
\<close>

type_synonym inputPdf = "(jsnum \<times> jsnum) list"

datatype pdf_file = Corrupt | Document inputPdf

datatype error = LoadError | PageIndexOutOfRange | TypeError

definition load :: "pdf_file \<Rightarrow> error + inputPdf" where
  "load f = (case f of Corrupt \<Rightarrow> Inl LoadError | Document d \<Rightarrow> Inr d)"

definition getPageCount :: "inputPdf \<Rightarrow> int" where
  "getPageCount inputPdf = int (length inputPdf)"

definition getPage :: "inputPdf \<Rightarrow> int \<Rightarrow> error + (jsnum \<times> jsnum) option" where
  "getPage inputPdf i =
     (if 0 \<le> i \<and> i \<le> max 0 (getPageCount inputPdf - 1)
      then Inr (if i < getPageCount inputPdf then Some (inputPdf ! nat i) else None)
      else Inl PageIndexOutOfRange)"

definition getSize :: "(jsnum \<times> jsnum) option \<Rightarrow> error + (jsnum \<times> jsnum)" where
  "getSize page = (case page of None \<Rightarrow> Inl TypeError | Some s \<Rightarrow> Inr s)"

text \<open>
  What \<open>drawPage\<close> receives: the rectangle and the embedded page, which is identified
  by the index of the source page it was embedded from.
\<close>

record placement =
  plc_x :: jsnum
  plc_y :: jsnum
  plc_width :: jsnum
  plc_height :: jsnum
  plc_page :: int

text \<open>A page of the output document: its size and the draw calls made on it, in order.\<close>

record side =
  side_width :: jsnum
  side_height :: jsnum
  draws :: "placement list"

definition addPage :: "jsnum \<Rightarrow> jsnum \<Rightarrow> side" where
  "addPage w h = \<lparr>side_width = w, side_height = h, draws = []\<rparr>"

definition drawPage :: "side \<Rightarrow> placement \<Rightarrow> side" where
  "drawPage s p = s\<lparr>draws := draws s @ [p]\<rparr>"

section \<open>The imposition engine of \<open>main.js\<close>\<close>

definition finalPageCount :: "int \<Rightarrow> int" where
  "finalPageCount pageCount = \<lceil>real_of_int pageCount / 4\<rceil> * 4"

definition padding_of :: "options \<Rightarrow> jsnum" where
  "padding_of opts = js_or (opt_padding opts) (Fin 0)"

definition scaleX :: "jsnum \<Rightarrow> jsnum \<Rightarrow> jsnum \<Rightarrow> jsnum" where
  "scaleX outputWidth padding origWidth =
     js_div (js_sub (js_div outputWidth (Fin 2)) (js_mul padding (Fin 2))) origWidth"

definition scaleY :: "bool \<Rightarrow> jsnum \<Rightarrow> jsnum \<Rightarrow> jsnum \<Rightarrow> jsnum" where
  "scaleY dbl outputHeight padding origHeight =
     (if dbl
      then js_div (js_sub (js_div outputHeight (Fin 2)) (js_mul padding (Fin 2))) origHeight
      else js_div (js_sub outputHeight (js_mul padding (Fin 2))) origHeight)"

definition scale :: "bool \<Rightarrow> jsnum \<Rightarrow> jsnum \<Rightarrow> jsnum \<Rightarrow> jsnum \<Rightarrow> jsnum \<Rightarrow> jsnum" where
  "scale dbl outputWidth outputHeight padding origWidth origHeight =
     js_min (scaleX outputWidth padding origWidth)
            (scaleY dbl outputHeight padding origHeight)"

text \<open>
  The variables the helper and the loop close over, under the names the source gives
  them.
\<close>

record locals =
  l_pageCount :: int
  l_finalPageCount :: int
  l_origWidth :: jsnum
  l_origHeight :: jsnum
  l_outputWidth :: jsnum
  l_outputHeight :: jsnum
  l_padding :: jsnum
  l_scale :: jsnum
  l_double :: bool

definition addPageToOutput :: "locals \<Rightarrow> int \<Rightarrow> jsnum \<Rightarrow> jsnum \<Rightarrow> placement option" where
  "addPageToOutput l pageNumber x y =
     (if pageNumber < l_pageCount l
      then Some \<lparr>plc_x = js_add x (l_padding l),
                 plc_y = js_add y (l_padding l),
                 plc_width = js_mul (l_origWidth l) (l_scale l),
                 plc_height = js_mul (l_origHeight l) (l_scale l),
                 plc_page = pageNumber\<rparr>
      else None)"

text \<open>
  One iteration of the loop: the back side, then the front side. Each of the four
  \<open>if\<close> blocks draws the bottom stamp and, with \<open>--double\<close>, a copy of it moved up.
\<close>

definition loop_body :: "locals \<Rightarrow> int \<Rightarrow> side list \<Rightarrow> side list" where
  "loop_body l index outputPdf =
     (let outputPage = addPage (l_outputWidth l) (l_outputHeight l);
          backLeftBottom = addPageToOutput l (l_finalPageCount l - 1 - index) (Fin 0) (Fin 0);
          backRightBottom = addPageToOutput l index (js_div (l_outputWidth l) (Fin 2)) (Fin 0);
          outputPage =
            (case backLeftBottom of None \<Rightarrow> outputPage
             | Some b \<Rightarrow>
                 (let outputPage = drawPage outputPage b in
                  if l_double l
                  then drawPage outputPage
                         (b\<lparr>plc_y := js_add (js_div (l_outputHeight l) (Fin 2)) (l_padding l)\<rparr>)
                  else outputPage));
          outputPage =
            (case backRightBottom of None \<Rightarrow> outputPage
             | Some b \<Rightarrow>
                 (let outputPage = drawPage outputPage b in
                  if l_double l
                  then drawPage outputPage
                         (b\<lparr>plc_y := js_add (js_div (l_outputHeight l) (Fin 2)) (l_padding l)\<rparr>)
                  else outputPage));
          frontPage = addPage (l_outputWidth l) (l_outputHeight l);
          frontLeftBottom = addPageToOutput l (index + 1) (Fin 0) (Fin 0);
          frontRightBottom =
            addPageToOutput l (l_finalPageCount l - 2 - index)
              (js_div (l_outputWidth l) (Fin 2)) (Fin 0);
          frontPage =
            (case frontLeftBottom of None \<Rightarrow> frontPage
             | Some b \<Rightarrow>
                 (let frontPage = drawPage frontPage b in
                  if l_double l
                  then drawPage frontPage
                         (b\<lparr>plc_y := js_add (js_div (l_outputHeight l) (Fin 2)) (l_padding l)\<rparr>)
                  else frontPage));
          frontPage =
            (case frontRightBottom of None \<Rightarrow> frontPage
             | Some b \<Rightarrow>
                 (let frontPage = drawPage frontPage b in
                  if l_double l
                  then drawPage frontPage
                         (b\<lparr>plc_y := js_add (js_div (l_outputHeight l) (Fin 2)) (l_padding l)\<rparr>)
                  else frontPage))
      in outputPdf @ [outputPage, frontPage])"

text \<open>
  \<open>for (let index = 0; index < finalPageCount / 2; index += 2)\<close>: the bound is a
  division of numbers, not an integer division.
\<close>

function sheets_loop :: "locals \<Rightarrow> int \<Rightarrow> side list \<Rightarrow> side list" where
  "sheets_loop l index outputPdf =
     (if real_of_int index < real_of_int (l_finalPageCount l) / 2
      then sheets_loop l (index + 2) (loop_body l index outputPdf)
      else outputPdf)"
  by pat_completeness auto
termination
  by (relation "measure (\<lambda>(l, index, outputPdf). nat (l_finalPageCount l - 2 * index))") auto

text \<open>
  The state outside \<open>pdfToBooklet\<close>: the library's page-size table, the files written
  so far, and the lines printed. Debug output (\<open>options.debug\<close>) only prints and is
  left out.
\<close>

datatype message =
  Processing string
| Created_booklet string
| Batch_completed
| Error_in_batch error
| Booklet_created string
| Error_creating error

record world =
  pageSizes :: PageSizes
  written :: "(string \<times> side list) list"
  console :: "message list"

definition booklet_locals :: "inputPdf \<Rightarrow> jsnum \<times> jsnum \<Rightarrow> options \<Rightarrow> jsnum \<times> jsnum \<Rightarrow> locals" where
  "booklet_locals inputPdf firstPageSize opts sheet =
     (let pageCount = getPageCount inputPdf;
          origWidth = fst firstPageSize;
          origHeight = snd firstPageSize;
          outputWidth = fst sheet;
          outputHeight = snd sheet;
          padding = padding_of opts
      in \<lparr>l_pageCount = pageCount,
          l_finalPageCount = finalPageCount pageCount,
          l_origWidth = origWidth,
          l_origHeight = origHeight,
          l_outputWidth = outputWidth,
          l_outputHeight = outputHeight,
          l_padding = padding,
          l_scale = scale (opt_double opts) outputWidth outputHeight padding origWidth origHeight,
          l_double = opt_double opts\<rparr>)"

text \<open>
  \<open>pdfToBooklet\<close>: the input file stands for what reading and loading \<open>inputPath\<close>
  yields. A thrown exception is the \<open>Some\<close> of the second component; the state
  reached when it is thrown is the first. Embedding, saving and writing are taken to
  succeed: what the theorems say of the sides written is what the loop has laid out when
  \<open>save\<close> is called, and a document the library cannot embed or save is outside the
  model.
\<close>

definition outputSize :: "bool \<Rightarrow> PageSizes \<Rightarrow> jsnum \<times> jsnum" where
  "outputSize useA3 sizes = (if useA3 then reverse (A3 sizes) else reverse (A4 sizes))"

definition reversed_in_place :: "bool \<Rightarrow> PageSizes \<Rightarrow> PageSizes" where
  "reversed_in_place useA3 sizes =
     (if useA3 then sizes\<lparr>A3 := reverse (A3 sizes)\<rparr> else sizes\<lparr>A4 := reverse (A4 sizes)\<rparr>)"

definition pdfToBooklet :: "pdf_file \<Rightarrow> string \<Rightarrow> options \<Rightarrow> world \<Rightarrow> world \<times> error option" where
  "pdfToBooklet inputFile outputPath opts w =
     (case load inputFile of
        Inl e \<Rightarrow> (w, Some e)
      | Inr inputPdf \<Rightarrow>
          (case getPage inputPdf 0 of
             Inl e \<Rightarrow> (w, Some e)
           | Inr firstPage \<Rightarrow>
               (case getSize firstPage of
                  Inl e \<Rightarrow> (w, Some e)
                | Inr firstPageSize \<Rightarrow>
                    (let sheet = outputSize (opt_useA3 opts) (pageSizes w);
                         sizes = reversed_in_place (opt_useA3 opts) (pageSizes w);
                         l = booklet_locals inputPdf firstPageSize opts sheet;
                         outputPdf = sheets_loop l 0 []
                     in (w\<lparr>pageSizes := sizes,
                           written := written w @ [(outputPath, outputPdf)]\<rparr>,
                         None)))))"

subsection \<open>Batch mode\<close>

definition toLowerCase :: "string \<Rightarrow> string" where
  "toLowerCase s =
     map (\<lambda>c. case map_of (zip ''ABCDEFGHIJKLMNOPQRSTUVWXYZ'' ''abcdefghijklmnopqrstuvwxyz'') c of
                None \<Rightarrow> c | Some d \<Rightarrow> d) s"

definition endsWith :: "string \<Rightarrow> string \<Rightarrow> bool" where
  "endsWith s t = (length t \<le> length s \<and> drop (length s - length t) s = t)"

text \<open>
  \<open>nodePath.parse(file).name\<close> for a directory entry: the name without its last
  extension, a leading dot not starting one. \<open>nodePath.join\<close> of a directory and a
  name, for a directory path that needs no normalisation (no trailing separator, no
  \<open>.\<close> or \<open>..\<close> segment), where it only puts the separator between the two.
\<close>

definition parse_name :: "string \<Rightarrow> string" where
  "parse_name f =
     (let ext = length (takeWhile (\<lambda>c. c \<noteq> CHR ''.'') (rev f)) + 1
      in if CHR ''.'' \<in> set f \<and> ext < length f then take (length f - ext) f else f)"

definition path_join :: "string \<Rightarrow> string \<Rightarrow> string" where
  "path_join d f = d @ ''/'' @ f"

text \<open>
  \<open>processBatch\<close> over the entries \<open>readdirSync\<close> returned, each paired with what
  its path holds. The \<open>await\<close> is not inside a \<open>try\<close>: an exception of
  \<open>pdfToBooklet\<close> leaves the loop.
\<close>

fun processBatch :: "(string \<times> pdf_file) list \<Rightarrow> string \<Rightarrow> options \<Rightarrow> world \<Rightarrow> world \<times> error option" where
  "processBatch [] outputDirectory opts w = (w, None)"
| "processBatch ((file, content) # files) outputDirectory opts w =
     (if endsWith (toLowerCase file) ''.pdf''
      then
        (let outputPath = path_join outputDirectory (parse_name file @ ''-booklet.pdf'');
             w = w\<lparr>console := console w @ [Processing file]\<rparr>
         in case pdfToBooklet content outputPath opts w of
              (w, Some e) \<Rightarrow> (w, Some e)
            | (w, None) \<Rightarrow>
                processBatch files outputDirectory opts
                  (w\<lparr>console := console w @ [Created_booklet outputPath]\<rparr>))
      else processBatch files outputDirectory opts w)"

text \<open>The two \<open>try\<close> blocks at the end of the script.\<close>

definition run_batch :: "(string \<times> pdf_file) list \<Rightarrow> string \<Rightarrow> options \<Rightarrow> world \<Rightarrow> world" where
  "run_batch files outputDirectory opts w =
     (case processBatch files outputDirectory opts w of
        (w, None) \<Rightarrow> w\<lparr>console := console w @ [Batch_completed]\<rparr>
      | (w, Some e) \<Rightarrow> w\<lparr>console := console w @ [Error_in_batch e]\<rparr>)"

definition run_single :: "pdf_file \<Rightarrow> string \<Rightarrow> options \<Rightarrow> world \<Rightarrow> world" where
  "run_single inputFile outputPath opts w =
     (case pdfToBooklet inputFile outputPath opts w of
        (w, None) \<Rightarrow> w\<lparr>console := console w @ [Booklet_created outputPath]\<rparr>
      | (w, Some e) \<Rightarrow> w\<lparr>console := console w @ [Error_creating e]\<rparr>)"

section \<open>The minimal script\<close>

text \<open>
  The second script of the repository has the same structure with only \<open>--a3\<close>: no
  padding, no double printing, a scale without the padding terms, and pages centred
  vertically. Of the options it reads \<open>opt_useA3\<close> alone.
\<close>

definition min_scaleX :: "jsnum \<Rightarrow> jsnum \<Rightarrow> jsnum" where
  "min_scaleX outputWidth origWidth = js_div outputWidth (js_mul (Fin 2) origWidth)"

definition min_scaleY :: "jsnum \<Rightarrow> jsnum \<Rightarrow> jsnum" where
  "min_scaleY outputHeight origHeight = js_div outputHeight origHeight"

definition min_scale :: "jsnum \<Rightarrow> jsnum \<Rightarrow> jsnum \<Rightarrow> jsnum \<Rightarrow> jsnum" where
  "min_scale outputWidth outputHeight origWidth origHeight =
     js_min (min_scaleX outputWidth origWidth) (min_scaleY outputHeight origHeight)"

definition min_locals :: "inputPdf \<Rightarrow> jsnum \<times> jsnum \<Rightarrow> jsnum \<times> jsnum \<Rightarrow> locals" where
  "min_locals inputPdf firstPageSize sheet =
     (let pageCount = getPageCount inputPdf;
          origWidth = fst firstPageSize;
          origHeight = snd firstPageSize;
          outputWidth = fst sheet;
          outputHeight = snd sheet
      in \<lparr>l_pageCount = pageCount,
          l_finalPageCount = finalPageCount pageCount,
          l_origWidth = origWidth,
          l_origHeight = origHeight,
          l_outputWidth = outputWidth,
          l_outputHeight = outputHeight,
          l_padding = Fin 0,
          l_scale = min_scale outputWidth outputHeight origWidth origHeight,
          l_double = False\<rparr>)"

definition min_addPageToOutput :: "locals \<Rightarrow> int \<Rightarrow> jsnum \<Rightarrow> placement option" where
  "min_addPageToOutput l pageNumber x =
     (if pageNumber < l_pageCount l
      then Some \<lparr>plc_x = x,
                 plc_y = js_div (js_sub (l_outputHeight l)
                                  (js_mul (l_origHeight l) (l_scale l))) (Fin 2),
                 plc_width = js_mul (l_origWidth l) (l_scale l),
                 plc_height = js_mul (l_origHeight l) (l_scale l),
                 plc_page = pageNumber\<rparr>
      else None)"

definition min_loop_body :: "locals \<Rightarrow> int \<Rightarrow> side list \<Rightarrow> side list" where
  "min_loop_body l index outputPdf =
     (let outputPage = addPage (l_outputWidth l) (l_outputHeight l);
          backLeft = min_addPageToOutput l (l_finalPageCount l - 1 - index) (Fin 0);
          backRight = min_addPageToOutput l index (js_div (l_outputWidth l) (Fin 2));
          outputPage =
            (case backLeft of None \<Rightarrow> outputPage | Some b \<Rightarrow> drawPage outputPage b);
          outputPage =
            (case backRight of None \<Rightarrow> outputPage | Some b \<Rightarrow> drawPage outputPage b);
          frontPage = addPage (l_outputWidth l) (l_outputHeight l);
          frontLeft = min_addPageToOutput l (index + 1) (Fin 0);
          frontRight =
            min_addPageToOutput l (l_finalPageCount l - 2 - index)
              (js_div (l_outputWidth l) (Fin 2));
          frontPage =
            (case frontLeft of None \<Rightarrow> frontPage | Some b \<Rightarrow> drawPage frontPage b);
          frontPage =
            (case frontRight of None \<Rightarrow> frontPage | Some b \<Rightarrow> drawPage frontPage b)
      in outputPdf @ [outputPage, frontPage])"

function min_sheets_loop :: "locals \<Rightarrow> int \<Rightarrow> side list \<Rightarrow> side list" where
  "min_sheets_loop l index outputPdf =
     (if real_of_int index < real_of_int (l_finalPageCount l) / 2
      then min_sheets_loop l (index + 2) (min_loop_body l index outputPdf)
      else outputPdf)"
  by pat_completeness auto
termination
  by (relation "measure (\<lambda>(l, index, outputPdf). nat (l_finalPageCount l - 2 * index))") auto

definition min_pdfToBooklet :: "pdf_file \<Rightarrow> string \<Rightarrow> options \<Rightarrow> world \<Rightarrow> world \<times> error option" where
  "min_pdfToBooklet inputFile outputPath opts w =
     (case load inputFile of
        Inl e \<Rightarrow> (w, Some e)
      | Inr inputPdf \<Rightarrow>
          (case getPage inputPdf 0 of
             Inl e \<Rightarrow> (w, Some e)
           | Inr firstPage \<Rightarrow>
               (case getSize firstPage of
                  Inl e \<Rightarrow> (w, Some e)
                | Inr firstPageSize \<Rightarrow>
                    (let sheet = outputSize (opt_useA3 opts) (pageSizes w);
                         sizes = reversed_in_place (opt_useA3 opts) (pageSizes w);
                         l = min_locals inputPdf firstPageSize sheet;
                         outputPdf = min_sheets_loop l 0 []
                     in (w\<lparr>pageSizes := sizes,
                           written := written w @ [(outputPath, outputPdf)]\<rparr>,
                         None)))))"

fun min_processBatch :: "(string \<times> pdf_file) list \<Rightarrow> string \<Rightarrow> options \<Rightarrow> world \<Rightarrow> world \<times> error option" where
  "min_processBatch [] outputDirectory opts w = (w, None)"
| "min_processBatch ((file, content) # files) outputDirectory opts w =
     (if endsWith (toLowerCase file) ''.pdf''
      then
        (let outputPath = path_join outputDirectory (parse_name file @ ''-booklet.pdf'');
             w = w\<lparr>console := console w @ [Processing file]\<rparr>
         in case min_pdfToBooklet content outputPath opts w of
              (w, Some e) \<Rightarrow> (w, Some e)
            | (w, None) \<Rightarrow>
                min_processBatch files outputDirectory opts
                  (w\<lparr>console := console w @ [Created_booklet outputPath]\<rparr>))
      else min_processBatch files outputDirectory opts w)"

definition min_run_batch :: "(string \<times> pdf_file) list \<Rightarrow> string \<Rightarrow> options \<Rightarrow> world \<Rightarrow> world" where
  "min_run_batch files outputDirectory opts w =
     (case min_processBatch files outputDirectory opts w of
        (w, None) \<Rightarrow> w\<lparr>console := console w @ [Batch_completed]\<rparr>
      | (w, Some e) \<Rightarrow> w\<lparr>console := console w @ [Error_in_batch e]\<rparr>)"

section \<open>The layout as the specification words it\<close>

text \<open>
  The specification enumerates \<open>index = 0, 2, 4, \<dots>\<close> below \<open>finalPageCount / 2\<close> and
  gives, for each, a back side and then a front side, each with the logical page of its
  left and of its right slot.
\<close>

datatype face = Back | Front

definition spec_indices :: "int \<Rightarrow> int list" where
  "spec_indices fpc = filter even [0 .. fpc div 2 - 1]"

definition spec_layout :: "int \<Rightarrow> (face \<times> int \<times> int) list" where
  "spec_layout fpc =
     concat (map (\<lambda>index. [(Back, fpc - 1 - index, index), (Front, index + 1, fpc - 2 - index)])
                 (spec_indices fpc))"

text \<open>
  What the code draws for one slot holding logical page \<open>pageNumber\<close> at horizontal
  offset \<open>x\<close>, and the side whose two slots hold \<open>left\<close> and \<open>right\<close>: the four
  \<open>if\<close> blocks of the loop body, named.
\<close>

definition slot_draws :: "locals \<Rightarrow> int \<Rightarrow> jsnum \<Rightarrow> placement list" where
  "slot_draws l pageNumber x =
     (case addPageToOutput l pageNumber x (Fin 0) of
        None \<Rightarrow> []
      | Some b \<Rightarrow>
          if l_double l
          then [b, b\<lparr>plc_y := js_add (js_div (l_outputHeight l) (Fin 2)) (l_padding l)\<rparr>]
          else [b])"

definition render_side :: "locals \<Rightarrow> int \<Rightarrow> int \<Rightarrow> side" where
  "render_side l left right =
     \<lparr>side_width = l_outputWidth l, side_height = l_outputHeight l,
      draws = slot_draws l left (Fin 0) @ slot_draws l right (js_div (l_outputWidth l) (Fin 2))\<rparr>"

definition render_face :: "locals \<Rightarrow> face \<times> int \<times> int \<Rightarrow> side" where
  "render_face l s = render_side l (fst (snd s)) (snd (snd s))"

definition min_slot_draws :: "locals \<Rightarrow> int \<Rightarrow> jsnum \<Rightarrow> placement list" where
  "min_slot_draws l pageNumber x =
     (case min_addPageToOutput l pageNumber x of None \<Rightarrow> [] | Some b \<Rightarrow> [b])"

definition min_render_side :: "locals \<Rightarrow> int \<Rightarrow> int \<Rightarrow> side" where
  "min_render_side l left right =
     \<lparr>side_width = l_outputWidth l, side_height = l_outputHeight l,
      draws = min_slot_draws l left (Fin 0)
              @ min_slot_draws l right (js_div (l_outputWidth l) (Fin 2))\<rparr>"

definition min_render_face :: "locals \<Rightarrow> face \<times> int \<times> int \<Rightarrow> side" where
  "min_render_face l s = min_render_side l (fst (snd s)) (snd (snd s))"

text \<open>The variables of a run on a document with a first page.\<close>

definition run_locals :: "inputPdf \<Rightarrow> options \<Rightarrow> world \<Rightarrow> locals" where
  "run_locals inputPdf opts w =
     booklet_locals inputPdf (inputPdf ! 0) opts (outputSize (opt_useA3 opts) (pageSizes w))"

definition min_run_locals :: "inputPdf \<Rightarrow> options \<Rightarrow> world \<Rightarrow> locals" where
  "min_run_locals inputPdf opts w =
     min_locals inputPdf (inputPdf ! 0) (outputSize (opt_useA3 opts) (pageSizes w))"

definition initial_world :: world where
  "initial_world = \<lparr>pageSizes = initial_PageSizes, written = [], console = []\<rparr>"

section \<open>Example inputs\<close>

definition a4_page :: "jsnum \<times> jsnum" where
  "a4_page = (Fin 595.28, Fin 841.89)"

definition five_pages :: inputPdf where
  "five_pages = [a4_page, a4_page, a4_page, a4_page, a4_page]"

definition plain_options :: options where
  "plain_options = \<lparr>opt_useA3 = False, opt_debug = False, opt_double = False, opt_padding = Fin 0\<rparr>"

definition double_options :: options where
  "double_options = \<lparr>opt_useA3 = False, opt_debug = False, opt_double = True, opt_padding = Fin 10\<rparr>"

text \<open>The sides of the last file written, each as the list of source pages drawn on it.\<close>

definition pages_drawn :: "world \<times> error option \<Rightarrow> int list list" where
  "pages_drawn r = map (\<lambda>s. map plc_page (draws s)) (snd (last (written (fst r))))"

text \<open>
  The source pages a slot's instructions reference, as the specification has it: none when
  the slot's logical page is at or beyond the page count, else that page once per stamp.
\<close>

definition slot_pages :: "int \<Rightarrow> nat \<Rightarrow> int \<Rightarrow> int list" where
  "slot_pages pageCount stamps n = (if n < pageCount then replicate stamps n else [])"

definition side_pages :: "int \<Rightarrow> nat \<Rightarrow> face \<times> int \<times> int \<Rightarrow> int list" where
  "side_pages pageCount stamps s =
     slot_pages pageCount stamps (fst (snd s)) @ slot_pages pageCount stamps (snd (snd s))"

text \<open>
  The placement instructions of a slot as the specification words them: the left slot at
  \<open>x = padding\<close>, the right slot at \<open>x = outputWidth / 2 + padding\<close>, the bottom stamp at
  \<open>y = padding\<close>, the size \<open>origWidth * scale\<close> by \<open>origHeight * scale\<close>, and with double
  printing a second stamp at \<open>y = outputHeight / 2 + padding\<close>.
\<close>

datatype slot = LeftSlot | RightSlot

definition spec_x :: "locals \<Rightarrow> slot \<Rightarrow> jsnum" where
  "spec_x l sl =
     (case sl of
        LeftSlot \<Rightarrow> l_padding l
      | RightSlot \<Rightarrow> js_add (js_div (l_outputWidth l) (Fin 2)) (l_padding l))"

definition spec_bottom :: "locals \<Rightarrow> slot \<Rightarrow> int \<Rightarrow> placement" where
  "spec_bottom l sl n =
     \<lparr>plc_x = spec_x l sl,
      plc_y = l_padding l,
      plc_width = js_mul (l_origWidth l) (l_scale l),
      plc_height = js_mul (l_origHeight l) (l_scale l),
      plc_page = n\<rparr>"

definition spec_top :: "locals \<Rightarrow> slot \<Rightarrow> int \<Rightarrow> placement" where
  "spec_top l sl n =
     \<lparr>plc_x = spec_x l sl,
      plc_y = js_add (js_div (l_outputHeight l) (Fin 2)) (l_padding l),
      plc_width = js_mul (l_origWidth l) (l_scale l),
      plc_height = js_mul (l_origHeight l) (l_scale l),
      plc_page = n\<rparr>"

definition spec_slot :: "locals \<Rightarrow> slot \<Rightarrow> int \<Rightarrow> placement list" where
  "spec_slot l sl n =
     (if n < l_pageCount l
      then (if l_double l then [spec_bottom l sl n, spec_top l sl n] else [spec_bottom l sl n])
      else [])"

definition spec_side :: "locals \<Rightarrow> face \<times> int \<times> int \<Rightarrow> side" where
  "spec_side l s =
     \<lparr>side_width = l_outputWidth l, side_height = l_outputHeight l,
      draws = spec_slot l LeftSlot (fst (snd s)) @ spec_slot l RightSlot (snd (snd s))\<rparr>"

definition nan_options :: options where
  "nan_options = \<lparr>opt_useA3 = False, opt_debug = False, opt_double = False, opt_padding = NaN\<rparr>"

definition wide_padding_options :: options where
  "wide_padding_options =
     \<lparr>opt_useA3 = False, opt_debug = False, opt_double = False, opt_padding = Fin 250\<rparr>"


definition three_files :: "(string \<times> pdf_file) list" where
  "three_files =
     [(''a.pdf'', Document five_pages), (''b.pdf'', Corrupt), (''c.pdf'', Document five_pages)]"

text \<open>
  The theorems below that depend on the magnitude of a quotient are stated for sizes
  between 1 and one million points, where the arithmetic of the formulas on 64-bit numbers
  neither overflows nor underflows.
\<close>

definition ordinary :: "real \<Rightarrow> bool" where
  "ordinary v = (1 \<le> v \<and> v \<le> 1000000)"

definition infinite_padding_options :: options where
  "infinite_padding_options =
     \<lparr>opt_useA3 = False, opt_debug = False, opt_double = True, opt_padding = PInf\<rparr>"

definition double_unpadded_options :: options where
  "double_unpadded_options =
     \<lparr>opt_useA3 = False, opt_debug = False, opt_double = True, opt_padding = Fin 0\<rparr>"


definition one_page :: inputPdf where
  "one_page = [a4_page]"

section \<open>The loop\<close>

lemma loop_body_render:
  "loop_body l index outputPdf =
     outputPdf @ [render_side l (l_finalPageCount l - 1 - index) index,
                  render_side l (index + 1) (l_finalPageCount l - 2 - index)]"
  by (simp add: loop_body_def render_side_def slot_draws_def addPage_def drawPage_def Let_def
           split: option.split)

lemma min_loop_body_render:
  "min_loop_body l index outputPdf =
     outputPdf @ [min_render_side l (l_finalPageCount l - 1 - index) index,
                  min_render_side l (index + 1) (l_finalPageCount l - 2 - index)]"
  by (simp add: min_loop_body_def min_render_side_def min_slot_draws_def addPage_def
           drawPage_def Let_def split: option.split)

lemma filter_even_upto:
  assumes "even i" "i \<le> u"
  shows "filter even [i..u] = i # filter even [i + 2..u]"
proof (cases "i + 1 \<le> u")
  case True
  have "[i..u] = i # (i + 1) # [i + 1 + 1..u]"
    using assms True by (simp add: upto_rec1)
  then show ?thesis using assms by (simp add: add.assoc)
next
  case False
  then have "[i..u] = [i]" "[i + 2..u] = []" using assms by (simp_all add: upto_rec1)
  then show ?thesis using assms by simp
qed

lemma sheets_loop_render:
  "even index \<Longrightarrow>
   sheets_loop l index outputPdf =
     outputPdf @ concat (map (\<lambda>i. [render_side l (l_finalPageCount l - 1 - i) i,
                                     render_side l (i + 1) (l_finalPageCount l - 2 - i)])
                             (filter even [index .. (l_finalPageCount l - 1) div 2]))"
proof (induction l index outputPdf rule: sheets_loop.induct)
  case (1 l index outputPdf)
  show ?case
  proof (cases "real_of_int index < real_of_int (l_finalPageCount l) / 2")
    case True
    then have le: "index \<le> (l_finalPageCount l - 1) div 2" by simp
    have ev: "even (index + 2)" using "1.prems" by simp
    show ?thesis
      using "1.IH"[OF True ev] True "1.prems" le
      by (subst sheets_loop.simps) (simp add: loop_body_render filter_even_upto)
  next
    case False
    then have "\<not> index \<le> (l_finalPageCount l - 1) div 2" by simp
    then have "[index .. (l_finalPageCount l - 1) div 2] = []" by simp
    then show ?thesis using False by (subst sheets_loop.simps) simp
  qed
qed

lemma min_sheets_loop_render:
  "even index \<Longrightarrow>
   min_sheets_loop l index outputPdf =
     outputPdf @ concat (map (\<lambda>i. [min_render_side l (l_finalPageCount l - 1 - i) i,
                                     min_render_side l (i + 1) (l_finalPageCount l - 2 - i)])
                             (filter even [index .. (l_finalPageCount l - 1) div 2]))"
proof (induction l index outputPdf rule: min_sheets_loop.induct)
  case (1 l index outputPdf)
  show ?case
  proof (cases "real_of_int index < real_of_int (l_finalPageCount l) / 2")
    case True
    then have le: "index \<le> (l_finalPageCount l - 1) div 2" by simp
    have ev: "even (index + 2)" using "1.prems" by simp
    show ?thesis
      using "1.IH"[OF True ev] True "1.prems" le
      by (subst min_sheets_loop.simps) (simp add: min_loop_body_render filter_even_upto)
  next
    case False
    then have "\<not> index \<le> (l_finalPageCount l - 1) div 2" by simp
    then have "[index .. (l_finalPageCount l - 1) div 2] = []" by simp
    then show ?thesis using False by (subst min_sheets_loop.simps) simp
  qed
qed

lemma ceiling_quarter: "\<lceil>real_of_int pageCount / 4\<rceil> = - (- pageCount div 4)"
  using ceiling_divide_eq_div[of pageCount 4] by simp

lemma finalPageCount_div: "finalPageCount pageCount = - (- pageCount div 4) * 4"
  unfolding finalPageCount_def ceiling_quarter ..

lemma finalPageCount_dvd: "4 dvd finalPageCount pageCount"
  by (simp add: finalPageCount_def)

lemma half_pred: "4 dvd (n::int) \<Longrightarrow> (n - 1) div 2 = n div 2 - 1"
  by (elim dvdE) simp

lemma sheets_loop_layout:
  assumes "4 dvd l_finalPageCount l"
  shows "sheets_loop l 0 [] = map (render_face l) (spec_layout (l_finalPageCount l))"
proof -
  have "sheets_loop l 0 [] =
     concat (map (\<lambda>i. [render_side l (l_finalPageCount l - 1 - i) i,
                         render_side l (i + 1) (l_finalPageCount l - 2 - i)])
                 (filter even [0 .. (l_finalPageCount l - 1) div 2]))"
    using sheets_loop_render[of 0 l "[]"] by simp
  then show ?thesis
    unfolding half_pred[OF assms] spec_layout_def spec_indices_def
    by (simp add: map_concat comp_def render_face_def)
qed

lemma min_sheets_loop_layout:
  assumes "4 dvd l_finalPageCount l"
  shows "min_sheets_loop l 0 [] = map (min_render_face l) (spec_layout (l_finalPageCount l))"
proof -
  have "min_sheets_loop l 0 [] =
     concat (map (\<lambda>i. [min_render_side l (l_finalPageCount l - 1 - i) i,
                         min_render_side l (i + 1) (l_finalPageCount l - 2 - i)])
                 (filter even [0 .. (l_finalPageCount l - 1) div 2]))"
    using min_sheets_loop_render[of 0 l "[]"] by simp
  then show ?thesis
    unfolding half_pred[OF assms] spec_layout_def spec_indices_def
    by (simp add: map_concat comp_def min_render_face_def)
qed

section \<open>A run on a document with at least one page\<close>

lemma getPage_first:
  "1 \<le> getPageCount inputPdf \<Longrightarrow> getPage inputPdf 0 = Inr (Some (inputPdf ! 0))"
  by (simp add: getPage_def)

lemma run_locals_fields:
  "l_pageCount (run_locals inputPdf opts w) = getPageCount inputPdf"
  "l_finalPageCount (run_locals inputPdf opts w) = finalPageCount (getPageCount inputPdf)"
  "l_origWidth (run_locals inputPdf opts w) = fst (inputPdf ! 0)"
  "l_origHeight (run_locals inputPdf opts w) = snd (inputPdf ! 0)"
  "l_outputWidth (run_locals inputPdf opts w) = fst (outputSize (opt_useA3 opts) (pageSizes w))"
  "l_outputHeight (run_locals inputPdf opts w) = snd (outputSize (opt_useA3 opts) (pageSizes w))"
  "l_padding (run_locals inputPdf opts w) = padding_of opts"
  "l_double (run_locals inputPdf opts w) = opt_double opts"
  by (simp_all add: run_locals_def booklet_locals_def Let_def)

lemma min_run_locals_fields:
  "l_pageCount (min_run_locals inputPdf opts w) = getPageCount inputPdf"
  "l_finalPageCount (min_run_locals inputPdf opts w) = finalPageCount (getPageCount inputPdf)"
  "l_origWidth (min_run_locals inputPdf opts w) = fst (inputPdf ! 0)"
  "l_origHeight (min_run_locals inputPdf opts w) = snd (inputPdf ! 0)"
  "l_outputWidth (min_run_locals inputPdf opts w) = fst (outputSize (opt_useA3 opts) (pageSizes w))"
  "l_outputHeight (min_run_locals inputPdf opts w) = snd (outputSize (opt_useA3 opts) (pageSizes w))"
  by (simp_all add: min_run_locals_def min_locals_def Let_def)

lemma pdfToBooklet_run:
  assumes "1 \<le> getPageCount inputPdf"
  shows "pdfToBooklet (Document inputPdf) outputPath opts w =
           (w\<lparr>pageSizes := reversed_in_place (opt_useA3 opts) (pageSizes w),
              written := written w @
                [(outputPath,
                  map (render_face (run_locals inputPdf opts w))
                      (spec_layout (finalPageCount (getPageCount inputPdf))))]\<rparr>,
            None)"
proof -
  have "4 dvd l_finalPageCount (run_locals inputPdf opts w)"
    by (simp add: run_locals_fields finalPageCount_dvd)
  then have "sheets_loop (run_locals inputPdf opts w) 0 [] =
      map (render_face (run_locals inputPdf opts w))
          (spec_layout (finalPageCount (getPageCount inputPdf)))"
    using sheets_loop_layout[of "run_locals inputPdf opts w"] by (simp add: run_locals_fields)
  then show ?thesis
    by (simp add: pdfToBooklet_def load_def getPage_first[OF assms] getSize_def Let_def
          run_locals_def)
qed

lemma min_pdfToBooklet_run:
  assumes "1 \<le> getPageCount inputPdf"
  shows "min_pdfToBooklet (Document inputPdf) outputPath opts w =
           (w\<lparr>pageSizes := reversed_in_place (opt_useA3 opts) (pageSizes w),
              written := written w @
                [(outputPath,
                  map (min_render_face (min_run_locals inputPdf opts w))
                      (spec_layout (finalPageCount (getPageCount inputPdf))))]\<rparr>,
            None)"
proof -
  have "4 dvd l_finalPageCount (min_run_locals inputPdf opts w)"
    by (simp add: min_run_locals_fields finalPageCount_dvd)
  then have "min_sheets_loop (min_run_locals inputPdf opts w) 0 [] =
      map (min_render_face (min_run_locals inputPdf opts w))
          (spec_layout (finalPageCount (getPageCount inputPdf)))"
    using min_sheets_loop_layout[of "min_run_locals inputPdf opts w"]
    by (simp add: min_run_locals_fields)
  then show ?thesis
    by (simp add: min_pdfToBooklet_def load_def getPage_first[OF assms] getSize_def Let_def
          min_run_locals_def)
qed

section \<open>The padded page count\<close>

text \<open>
  Claim C2. For every page count of at least 1, \<open>finalPageCount\<close> (the same expression in
  both scripts) is a multiple of 4, is not below the page count, and exceeds it by 0, 1, 2
  or 3.
\<close>

theorem finalPageCount_multiple_of_4:
  assumes "1 \<le> pageCount"
  shows "4 dvd finalPageCount pageCount
         \<and> pageCount \<le> finalPageCount pageCount
         \<and> finalPageCount pageCount - pageCount \<in> {0, 1, 2, 3}"
proof -
  have d: "4 dvd finalPageCount pageCount" by (rule finalPageCount_dvd)
  have "pageCount \<le> - (- pageCount div 4) * 4" and "- (- pageCount div 4) * 4 - pageCount < 4"
    by linarith+
  then have "pageCount \<le> finalPageCount pageCount"
    and "finalPageCount pageCount - pageCount \<in> {0, 1, 2, 3}"
    unfolding finalPageCount_div by auto
  with d show ?thesis by blast
qed

theorem finalPageCount_multiple_of_4_witness:
  "(1::int) \<le> 5 \<and> 4 dvd finalPageCount 5 \<and> 5 \<le> finalPageCount 5
   \<and> finalPageCount 5 - 5 \<in> {0, 1, 2, 3} \<and> finalPageCount 5 = 8"
  using finalPageCount_multiple_of_4[of 5] by (simp add: finalPageCount_def)

section \<open>The order of the sides\<close>

lemma spec_layout_8:
  "spec_layout 8 = [(Back, 7, 0), (Front, 1, 6), (Back, 5, 2), (Front, 3, 4)]"
  by (simp add: spec_layout_def spec_indices_def upto.simps)

lemma five_count: "getPageCount five_pages = 5" "finalPageCount 5 = 8"
  by (simp_all add: getPageCount_def five_pages_def finalPageCount_def)

lemma example_options:
  "opt_useA3 plain_options = False" "opt_double plain_options = False"
  "padding_of plain_options = Fin 0"
  "opt_useA3 double_options = False" "opt_double double_options = True"
  "padding_of double_options = Fin 10"
  by (simp_all add: plain_options_def double_options_def padding_of_def js_or_def)

text \<open>
  Claim C1. For a document of at least one page, both scripts return normally and write
  exactly the sides of the specification's enumeration, in its order: for
  \<open>index = 0, 2, 4, \<dots>\<close> below \<open>finalPageCount / 2\<close>, first the back side with logical
  page \<open>finalPageCount - 1 - index\<close> in the left slot and \<open>index\<close> in the right slot,
  then the front side with \<open>index + 1\<close> left and \<open>finalPageCount - 2 - index\<close> right.
\<close>

theorem imposition_order:
  assumes "1 \<le> getPageCount inputPdf"
  shows "pdfToBooklet (Document inputPdf) outputPath opts w =
           (w\<lparr>pageSizes := reversed_in_place (opt_useA3 opts) (pageSizes w),
              written := written w @
                [(outputPath,
                  map (render_face (run_locals inputPdf opts w))
                      (spec_layout (finalPageCount (getPageCount inputPdf))))]\<rparr>,
            None)
       \<and> min_pdfToBooklet (Document inputPdf) outputPath opts w =
           (w\<lparr>pageSizes := reversed_in_place (opt_useA3 opts) (pageSizes w),
              written := written w @
                [(outputPath,
                  map (min_render_face (min_run_locals inputPdf opts w))
                      (spec_layout (finalPageCount (getPageCount inputPdf))))]\<rparr>,
            None)"
  using pdfToBooklet_run[OF assms] min_pdfToBooklet_run[OF assms] by simp

theorem imposition_order_witness:
  "1 \<le> getPageCount five_pages
   \<and> snd (pdfToBooklet (Document five_pages) ''out.pdf'' plain_options initial_world) = None
   \<and> pages_drawn (pdfToBooklet (Document five_pages) ''out.pdf'' plain_options initial_world)
       = [[0], [1], [2], [3, 4]]
   \<and> pages_drawn (pdfToBooklet (Document five_pages) ''out.pdf'' double_options initial_world)
       = [[0, 0], [1, 1], [2, 2], [3, 3, 4, 4]]
   \<and> pages_drawn (min_pdfToBooklet (Document five_pages) ''out.pdf'' plain_options initial_world)
       = [[0], [1], [2], [3, 4]]"
proof -
  have h: "1 \<le> getPageCount five_pages" by (simp add: five_count)
  note a = imposition_order[OF h, of "''out.pdf''" plain_options initial_world]
  note b = imposition_order[OF h, of "''out.pdf''" double_options initial_world]
  show ?thesis
    using h
    by (simp add: a b pages_drawn_def five_count spec_layout_8 render_face_def render_side_def
          slot_draws_def addPageToOutput_def run_locals_fields min_render_face_def
          min_render_side_def min_slot_draws_def min_addPageToOutput_def min_run_locals_fields
          example_options)
qed

section \<open>The number of sides\<close>

lemma filter_even_upto_nat:
  "filter even [0 .. 2 * int m - 1] = map (\<lambda>k. 2 * int k) [0..<m]"
proof (induction m)
  case 0
  show ?case by simp
next
  case (Suc m)
  have "[0 .. 2 * int (Suc m) - 1] = [0 .. 2 * int m - 1] @ [2 * int m, 2 * int m + 1]"
  proof -
    have a: "[0 .. 2 * int m + 1] = [0 .. 2 * int m + 1 - 1] @ [2 * int m + 1]"
      by (rule upto_rec2) simp
    have b: "[0 .. 2 * int m] = [0 .. 2 * int m - 1] @ [2 * int m]"
      by (rule upto_rec2) simp
    have c: "2 * int (Suc m) - 1 = 2 * int m + 1" by simp
    show ?thesis unfolding c using a b by simp
  qed
  then show ?case using Suc.IH by simp
qed

lemma spec_indices_quad: "spec_indices (4 * int m) = map (\<lambda>k. 2 * int k) [0..<m]"
  using filter_even_upto_nat[of m] by (simp add: spec_indices_def)

lemma length_spec_layout_quad: "length (spec_layout (4 * int m)) = 2 * m"
  by (simp add: spec_layout_def spec_indices_quad length_concat comp_def sum_list_triv)

lemma finalPageCount_quad:
  assumes "0 \<le> pageCount"
  shows "\<exists>m. finalPageCount pageCount = 4 * int m"
proof -
  have "0 \<le> - (- pageCount div 4)" using assms by linarith
  then have "finalPageCount pageCount = 4 * int (nat (- (- pageCount div 4)))"
    unfolding finalPageCount_div by simp
  then show ?thesis ..
qed

lemma length_spec_layout:
  assumes "0 \<le> pageCount"
  shows "int (length (spec_layout (finalPageCount pageCount))) = finalPageCount pageCount div 2"
proof -
  obtain m where m: "finalPageCount pageCount = 4 * int m"
    using finalPageCount_quad[OF assms] ..
  show ?thesis unfolding m by (simp add: length_spec_layout_quad)
qed

lemma half_finalPageCount:
  "finalPageCount pageCount div 2 = 2 * \<lceil>real_of_int pageCount / 4\<rceil>"
  by (simp add: finalPageCount_def)

lemma spec_layout_pages:
  assumes "(f, left, right) \<in> set (spec_layout (4 * int m))"
  shows "0 \<le> left \<and> left < 4 * int m \<and> 0 \<le> right \<and> right < 4 * int m"
  using assms by (auto simp: spec_layout_def spec_indices_quad)

lemma render_face_size:
  "side_width (render_face l s) = l_outputWidth l" "side_height (render_face l s) = l_outputHeight l"
  "side_width (min_render_face l s) = l_outputWidth l"
  "side_height (min_render_face l s) = l_outputHeight l"
  by (simp_all add: render_face_def render_side_def min_render_face_def min_render_side_def)

text \<open>
  Claim C10. For a document of at least one page and any options and page-size table, each
  script writes exactly \<open>finalPageCount / 2 = 2 * ceil(pageCount / 4)\<close> sides, every one
  of the resolved sheet size. The count depends on the page count alone, so no option
  changes it.
\<close>

theorem number_of_sides:
  assumes "1 \<le> getPageCount inputPdf"
  shows "(\<exists>out w'.
            pdfToBooklet (Document inputPdf) outputPath opts w = (w', None)
          \<and> written w' = written w @ [(outputPath, out)]
          \<and> int (length out) = finalPageCount (getPageCount inputPdf) div 2
          \<and> int (length out) = 2 * \<lceil>real_of_int (getPageCount inputPdf) / 4\<rceil>
          \<and> (\<forall>s \<in> set out.
                 (side_width s, side_height s) = outputSize (opt_useA3 opts) (pageSizes w)))
       \<and> (\<exists>out w'.
            min_pdfToBooklet (Document inputPdf) outputPath opts w = (w', None)
          \<and> written w' = written w @ [(outputPath, out)]
          \<and> int (length out) = finalPageCount (getPageCount inputPdf) div 2
          \<and> int (length out) = 2 * \<lceil>real_of_int (getPageCount inputPdf) / 4\<rceil>
          \<and> (\<forall>s \<in> set out.
                 (side_width s, side_height s) = outputSize (opt_useA3 opts) (pageSizes w)))"
proof -
  have n: "0 \<le> getPageCount inputPdf" using assms by simp
  have len: "int (length (spec_layout (finalPageCount (getPageCount inputPdf))))
             = finalPageCount (getPageCount inputPdf) div 2"
    by (rule length_spec_layout[OF n])
  have first: "\<exists>out w'.
            pdfToBooklet (Document inputPdf) outputPath opts w = (w', None)
          \<and> written w' = written w @ [(outputPath, out)]
          \<and> int (length out) = finalPageCount (getPageCount inputPdf) div 2
          \<and> int (length out) = 2 * \<lceil>real_of_int (getPageCount inputPdf) / 4\<rceil>
          \<and> (\<forall>s \<in> set out.
                 (side_width s, side_height s) = outputSize (opt_useA3 opts) (pageSizes w))"
    unfolding pdfToBooklet_run[OF assms]
    apply (intro exI conjI)
        apply (rule refl)
       apply simp
      apply (simp add: len)
     apply (simp add: len half_finalPageCount)
    apply (auto simp: render_face_size run_locals_fields)
    done
  have second: "\<exists>out w'.
            min_pdfToBooklet (Document inputPdf) outputPath opts w = (w', None)
          \<and> written w' = written w @ [(outputPath, out)]
          \<and> int (length out) = finalPageCount (getPageCount inputPdf) div 2
          \<and> int (length out) = 2 * \<lceil>real_of_int (getPageCount inputPdf) / 4\<rceil>
          \<and> (\<forall>s \<in> set out.
                 (side_width s, side_height s) = outputSize (opt_useA3 opts) (pageSizes w))"
    unfolding min_pdfToBooklet_run[OF assms]
    apply (intro exI conjI)
        apply (rule refl)
       apply simp
      apply (simp add: len)
     apply (simp add: len half_finalPageCount)
    apply (auto simp: render_face_size min_run_locals_fields)
    done
  from first second show ?thesis by blast
qed


lemma initial_world_fields:
  "pageSizes initial_world = initial_PageSizes" "written initial_world = []"
  "console initial_world = []"
  by (simp_all add: initial_world_def)

lemma initial_outputSize:
  "outputSize False initial_PageSizes = (Fin 841.89, Fin 595.28)"
  "outputSize True initial_PageSizes = (Fin 1190.55, Fin 841.89)"
  by (simp_all add: outputSize_def initial_PageSizes_def reverse_def)

theorem number_of_sides_witness:
  "1 \<le> getPageCount five_pages
   \<and> (\<exists>out w'.
         pdfToBooklet (Document five_pages) ''out.pdf'' double_options initial_world = (w', None)
       \<and> written w' = [(''out.pdf'', out)]
       \<and> length out = 4
       \<and> (\<forall>s \<in> set out. (side_width s, side_height s) = (Fin 841.89, Fin 595.28)))"
proof -
  have h: "1 \<le> getPageCount five_pages" by (simp add: five_count)
  from number_of_sides[OF h, of "''out.pdf''" double_options initial_world]
  obtain out w' where
    "pdfToBooklet (Document five_pages) ''out.pdf'' double_options initial_world = (w', None)"
    "written w' = written initial_world @ [(''out.pdf'', out)]"
    "int (length out) = finalPageCount (getPageCount five_pages) div 2"
    "\<forall>s \<in> set out.
       (side_width s, side_height s) = outputSize (opt_useA3 double_options) (pageSizes initial_world)"
    by blast
  then have
    "pdfToBooklet (Document five_pages) ''out.pdf'' double_options initial_world = (w', None)
     \<and> written w' = [(''out.pdf'', out)] \<and> length out = 4
     \<and> (\<forall>s \<in> set out. (side_width s, side_height s) = (Fin 841.89, Fin 595.28))"
    by (simp add: example_options initial_outputSize five_count initial_world_fields)
  then show ?thesis using h by blast
qed

section \<open>Blank pages\<close>

lemma slot_draws_pages:
  "map plc_page (slot_draws l n x) =
     slot_pages (l_pageCount l) (if l_double l then 2 else 1) n"
  by (simp add: slot_draws_def addPageToOutput_def slot_pages_def numeral_2_eq_2)

lemma min_slot_draws_pages:
  "map plc_page (min_slot_draws l n x) = slot_pages (l_pageCount l) 1 n"
  by (simp add: min_slot_draws_def min_addPageToOutput_def slot_pages_def)

lemma render_face_pages:
  "map plc_page (draws (render_face l s)) =
     side_pages (l_pageCount l) (if l_double l then 2 else 1) s"
  by (simp add: render_face_def render_side_def side_pages_def slot_draws_pages)

lemma min_render_face_pages:
  "map plc_page (draws (min_render_face l s)) = side_pages (l_pageCount l) 1 s"
  by (simp add: min_render_face_def min_render_side_def side_pages_def min_slot_draws_pages)

lemma side_pages_range:
  assumes "s \<in> set (spec_layout (finalPageCount pageCount))" "0 \<le> pageCount"
    and "n \<in> set (side_pages pageCount c s)"
  shows "0 \<le> n \<and> n < pageCount"
proof -
  obtain m where m: "finalPageCount pageCount = 4 * int m"
    using finalPageCount_quad[OF assms(2)] ..
  obtain f left right where s: "s = (f, left, right)" by (cases s) auto
  have "0 \<le> left \<and> 0 \<le> right"
    using spec_layout_pages[of f left right m] assms(1) unfolding m s by simp
  then show ?thesis
    using assms(3) unfolding s by (auto simp: side_pages_def slot_pages_def split: if_splits)
qed

lemma rendered_pages_range:
  assumes "d \<in> set (map render lay)" "p \<in> set (draws d)"
    and "lay = spec_layout (finalPageCount pageCount)" "0 \<le> pageCount"
    and "\<And>s. map plc_page (draws (render s)) = side_pages pageCount c s"
  shows "0 \<le> plc_page p \<and> plc_page p < pageCount"
proof -
  obtain s where s: "s \<in> set lay" "d = render s" using assms(1) by auto
  have "plc_page p \<in> set (map plc_page (draws d))" using assms(2) by simp
  then have "plc_page p \<in> set (side_pages pageCount c s)" using assms(5) s(2) by simp
  then show ?thesis using side_pages_range[of s pageCount "plc_page p" c] s(1) assms(3,4) by simp
qed

text \<open>
  Claim C4. For a document of at least one page and any options, every placement either
  script emits references a source page in \<open>[0, pageCount)\<close>, and the pages referenced on
  each side are exactly those of its two slots that are below the page count (once per
  stamp). For a page number at or beyond the page count \<open>addPageToOutput\<close> returns
  nothing, so such a slot is left empty.
\<close>

theorem no_blank_page_placed:
  assumes "1 \<le> getPageCount inputPdf"
  shows "(\<exists>out w'.
            pdfToBooklet (Document inputPdf) outputPath opts w = (w', None)
          \<and> written w' = written w @ [(outputPath, out)]
          \<and> (\<forall>s \<in> set out. \<forall>p \<in> set (draws s).
                 0 \<le> plc_page p \<and> plc_page p < getPageCount inputPdf)
          \<and> map (\<lambda>s. map plc_page (draws s)) out =
              map (side_pages (getPageCount inputPdf) (if opt_double opts then 2 else 1))
                  (spec_layout (finalPageCount (getPageCount inputPdf))))
       \<and> (\<exists>out w'.
            min_pdfToBooklet (Document inputPdf) outputPath opts w = (w', None)
          \<and> written w' = written w @ [(outputPath, out)]
          \<and> (\<forall>s \<in> set out. \<forall>p \<in> set (draws s).
                 0 \<le> plc_page p \<and> plc_page p < getPageCount inputPdf)
          \<and> map (\<lambda>s. map plc_page (draws s)) out =
              map (side_pages (getPageCount inputPdf) 1)
                  (spec_layout (finalPageCount (getPageCount inputPdf))))
       \<and> (\<forall>l n x y. l_pageCount l \<le> n \<longrightarrow>
              addPageToOutput l n x y = None \<and> min_addPageToOutput l n x = None)"
proof -
  let ?pc = "getPageCount inputPdf"
  let ?lay = "spec_layout (finalPageCount ?pc)"
  let ?l = "run_locals inputPdf opts w"
  let ?m = "min_run_locals inputPdf opts w"
  have n: "0 \<le> ?pc" using assms by simp
  have r1: "\<forall>s \<in> set (map (render_face ?l) ?lay). \<forall>p \<in> set (draws s).
              0 \<le> plc_page p \<and> plc_page p < ?pc"
    using rendered_pages_range[of _ "render_face ?l" ?lay _ ?pc "if opt_double opts then 2 else 1"] n
    by (simp add: render_face_pages run_locals_fields)
  have r2: "\<forall>s \<in> set (map (min_render_face ?m) ?lay). \<forall>p \<in> set (draws s).
              0 \<le> plc_page p \<and> plc_page p < ?pc"
    using rendered_pages_range[of _ "min_render_face ?m" ?lay _ ?pc 1] n
    by (simp add: min_render_face_pages min_run_locals_fields)
  have p1: "map (\<lambda>s. map plc_page (draws s)) (map (render_face ?l) ?lay) =
              map (side_pages ?pc (if opt_double opts then 2 else 1)) ?lay"
    by (simp add: render_face_pages run_locals_fields comp_def)
  have p2: "map (\<lambda>s. map plc_page (draws s)) (map (min_render_face ?m) ?lay) =
              map (side_pages ?pc 1) ?lay"
    by (simp add: min_render_face_pages min_run_locals_fields comp_def)
  have first: "\<exists>out w'.
            pdfToBooklet (Document inputPdf) outputPath opts w = (w', None)
          \<and> written w' = written w @ [(outputPath, out)]
          \<and> (\<forall>s \<in> set out. \<forall>p \<in> set (draws s). 0 \<le> plc_page p \<and> plc_page p < ?pc)
          \<and> map (\<lambda>s. map plc_page (draws s)) out =
              map (side_pages ?pc (if opt_double opts then 2 else 1)) ?lay"
    unfolding pdfToBooklet_run[OF assms]
    apply (intro exI conjI)
       apply (rule refl)
      apply simp
     apply (rule r1)
    apply (rule p1)
    done
  have second: "\<exists>out w'.
            min_pdfToBooklet (Document inputPdf) outputPath opts w = (w', None)
          \<and> written w' = written w @ [(outputPath, out)]
          \<and> (\<forall>s \<in> set out. \<forall>p \<in> set (draws s). 0 \<le> plc_page p \<and> plc_page p < ?pc)
          \<and> map (\<lambda>s. map plc_page (draws s)) out = map (side_pages ?pc 1) ?lay"
    unfolding min_pdfToBooklet_run[OF assms]
    apply (intro exI conjI)
       apply (rule refl)
      apply simp
     apply (rule r2)
    apply (rule p2)
    done
  have third: "\<forall>l n x y. l_pageCount l \<le> n \<longrightarrow>
              addPageToOutput l n x y = None \<and> min_addPageToOutput l n x = None"
    by (simp add: addPageToOutput_def min_addPageToOutput_def)
  from first second third show ?thesis by blast
qed

theorem no_blank_page_placed_witness:
  "1 \<le> getPageCount five_pages
   \<and> (\<exists>out w'.
         pdfToBooklet (Document five_pages) ''out.pdf'' double_options initial_world = (w', None)
       \<and> written w' = [(''out.pdf'', out)]
       \<and> (\<forall>s \<in> set out. \<forall>p \<in> set (draws s). 0 \<le> plc_page p \<and> plc_page p < 5)
       \<and> map (\<lambda>s. map plc_page (draws s)) out = [[0, 0], [1, 1], [2, 2], [3, 3, 4, 4]])
   \<and> l_pageCount (run_locals five_pages double_options initial_world) \<le> 7
   \<and> addPageToOutput (run_locals five_pages double_options initial_world) 7 (Fin 0) (Fin 0)
       = None"
proof -
  have h: "1 \<le> getPageCount five_pages" by (simp add: five_count)
  have k: "l_pageCount (run_locals five_pages double_options initial_world) \<le> 7"
    by (simp add: run_locals_fields five_count)
  note t = no_blank_page_placed[OF h, of "''out.pdf''" double_options initial_world]
  from t k have n:
    "addPageToOutput (run_locals five_pages double_options initial_world) 7 (Fin 0) (Fin 0) = None"
    by blast
  from t
  obtain out w' where
    "pdfToBooklet (Document five_pages) ''out.pdf'' double_options initial_world = (w', None)"
    "written w' = written initial_world @ [(''out.pdf'', out)]"
    "\<forall>s \<in> set out. \<forall>p \<in> set (draws s).
       0 \<le> plc_page p \<and> plc_page p < getPageCount five_pages"
    "map (\<lambda>s. map plc_page (draws s)) out =
       map (side_pages (getPageCount five_pages) (if opt_double double_options then 2 else 1))
           (spec_layout (finalPageCount (getPageCount five_pages)))"
    by blast
  then have
    "pdfToBooklet (Document five_pages) ''out.pdf'' double_options initial_world = (w', None)
     \<and> written w' = [(''out.pdf'', out)]
     \<and> (\<forall>s \<in> set out. \<forall>p \<in> set (draws s). 0 \<le> plc_page p \<and> plc_page p < 5)
     \<and> map (\<lambda>s. map plc_page (draws s)) out = [[0, 0], [1, 1], [2, 2], [3, 3, 4, 4]]"
    by (simp add: five_count initial_world_fields example_options spec_layout_8 side_pages_def
          slot_pages_def numeral_2_eq_2)
  then have "\<exists>out w'.
         pdfToBooklet (Document five_pages) ''out.pdf'' double_options initial_world = (w', None)
       \<and> written w' = [(''out.pdf'', out)]
       \<and> (\<forall>s \<in> set out. \<forall>p \<in> set (draws s). 0 \<le> plc_page p \<and> plc_page p < 5)
       \<and> map (\<lambda>s. map plc_page (draws s)) out = [[0, 0], [1, 1], [2, 2], [3, 3, 4, 4]]"
    by (intro exI)
  with h k n show ?thesis by (intro conjI)
qed

section \<open>Placement geometry and scale\<close>

lemma js_add_zero_left: "js_add (Fin 0) p = p"
  by (cases p) simp_all

lemma slot_draws_spec:
  "slot_draws l n (Fin 0) = spec_slot l LeftSlot n"
  "slot_draws l n (js_div (l_outputWidth l) (Fin 2)) = spec_slot l RightSlot n"
  by (simp_all add: slot_draws_def addPageToOutput_def spec_slot_def spec_bottom_def
        spec_top_def spec_x_def js_add_zero_left)

lemma render_face_spec: "render_face l s = spec_side l s"
  by (simp add: render_face_def render_side_def spec_side_def slot_draws_spec)

lemma run_scale:
  "l_scale (run_locals inputPdf opts w) =
     scale (opt_double opts) (fst (outputSize (opt_useA3 opts) (pageSizes w)))
       (snd (outputSize (opt_useA3 opts) (pageSizes w))) (padding_of opts)
       (fst (inputPdf ! 0)) (snd (inputPdf ! 0))"
  by (simp add: run_locals_def booklet_locals_def Let_def)

text \<open>
  Claim C3. The scale of a run is \<open>min(scaleX, scaleY)\<close> with
  \<open>scaleX = (outputWidth / 2 - padding * 2) / origWidth\<close> and \<open>scaleY\<close> equal to
  \<open>(outputHeight / 2 - padding * 2) / origHeight\<close> with double printing and to
  \<open>(outputHeight - padding * 2) / origHeight\<close> without; every placement has the first
  page's width and height times that scale. Here \<open>padding\<close> is \<open>options.padding || 0\<close>:
  the option itself unless that is \<open>NaN\<close>. The equation needs no sign condition on the
  page size.
\<close>

theorem scale_is_min:
  assumes "1 \<le> getPageCount inputPdf"
    and "outputSize (opt_useA3 opts) (pageSizes w) = (outputWidth, outputHeight)"
    and "inputPdf ! 0 = (origWidth, origHeight)"
  shows "l_scale (run_locals inputPdf opts w) =
           js_min (js_div (js_sub (js_div outputWidth (Fin 2)) (js_mul (padding_of opts) (Fin 2)))
                          origWidth)
                  (if opt_double opts
                   then js_div (js_sub (js_div outputHeight (Fin 2))
                                       (js_mul (padding_of opts) (Fin 2))) origHeight
                   else js_div (js_sub outputHeight (js_mul (padding_of opts) (Fin 2)))
                               origHeight)
       \<and> (\<exists>out w'.
            pdfToBooklet (Document inputPdf) outputPath opts w = (w', None)
          \<and> written w' = written w @ [(outputPath, out)]
          \<and> (\<forall>s \<in> set out. \<forall>p \<in> set (draws s).
                 plc_width p = js_mul origWidth (l_scale (run_locals inputPdf opts w))
               \<and> plc_height p = js_mul origHeight (l_scale (run_locals inputPdf opts w))))
       \<and> (opt_padding opts \<noteq> NaN \<longrightarrow> padding_of opts = opt_padding opts)
       \<and> (opt_padding opts = NaN \<longrightarrow> padding_of opts = Fin 0)"
proof -
  let ?l = "run_locals inputPdf opts w"
  have a: "l_scale ?l =
           js_min (js_div (js_sub (js_div outputWidth (Fin 2)) (js_mul (padding_of opts) (Fin 2)))
                          origWidth)
                  (if opt_double opts
                   then js_div (js_sub (js_div outputHeight (Fin 2))
                                       (js_mul (padding_of opts) (Fin 2))) origHeight
                   else js_div (js_sub outputHeight (js_mul (padding_of opts) (Fin 2)))
                               origHeight)"
    by (simp add: run_scale assms(2,3) scale_def scaleX_def scaleY_def)
  have sz: "\<forall>p \<in> set (spec_slot ?l sl n).
              plc_width p = js_mul origWidth (l_scale ?l)
            \<and> plc_height p = js_mul origHeight (l_scale ?l)" for sl n
    by (auto simp: spec_slot_def spec_bottom_def spec_top_def run_locals_fields assms(3))
  have b: "\<forall>s \<in> set (map (render_face ?l) (spec_layout (finalPageCount (getPageCount inputPdf)))).
             \<forall>p \<in> set (draws s).
                 plc_width p = js_mul origWidth (l_scale ?l)
               \<and> plc_height p = js_mul origHeight (l_scale ?l)"
    using sz by (auto simp: render_face_spec spec_side_def)
  have c: "\<exists>out w'.
            pdfToBooklet (Document inputPdf) outputPath opts w = (w', None)
          \<and> written w' = written w @ [(outputPath, out)]
          \<and> (\<forall>s \<in> set out. \<forall>p \<in> set (draws s).
                 plc_width p = js_mul origWidth (l_scale ?l)
               \<and> plc_height p = js_mul origHeight (l_scale ?l))"
    unfolding pdfToBooklet_run[OF assms(1)]
    apply (intro exI conjI)
      apply (rule refl)
     apply simp
    apply (rule b)
    done
  have d: "(opt_padding opts \<noteq> NaN \<longrightarrow> padding_of opts = opt_padding opts)
         \<and> (opt_padding opts = NaN \<longrightarrow> padding_of opts = Fin 0)"
    by (simp add: padding_of_def js_or_def)
  from a c d show ?thesis by blast
qed

subsection \<open>The scale on a five-page document\<close>

lemma five_first: "five_pages ! 0 = (Fin 595.28, Fin 841.89)"
  by (simp add: five_pages_def a4_page_def)

lemma nan_options_fields:
  "opt_useA3 nan_options = False" "opt_double nan_options = False"
  "opt_padding nan_options = NaN" "padding_of nan_options = Fin 0"
  by (simp_all add: nan_options_def padding_of_def js_or_def)

lemma double_options_padding: "opt_padding double_options = Fin 10"
  by (simp add: double_options_def)

lemma example_scale:
  "l_scale (run_locals five_pages double_options initial_world) = Fin (27764 / 84189)"
  "l_scale (run_locals five_pages nan_options initial_world) = Fin (8504 / 12027)"
  by (simp_all add: run_scale example_options nan_options_fields initial_world_fields
        initial_outputSize five_first scale_def scaleX_def scaleY_def js_sub_def)

theorem scale_is_min_witness:
  "1 \<le> getPageCount five_pages
   \<and> outputSize (opt_useA3 double_options) (pageSizes initial_world) = (Fin 841.89, Fin 595.28)
   \<and> outputSize (opt_useA3 nan_options) (pageSizes initial_world) = (Fin 841.89, Fin 595.28)
   \<and> five_pages ! 0 = (Fin 595.28, Fin 841.89)
   \<and> l_scale (run_locals five_pages double_options initial_world) = Fin (27764 / 84189)
   \<and> (\<exists>out w'.
         pdfToBooklet (Document five_pages) ''out.pdf'' double_options initial_world = (w', None)
       \<and> written w' = [(''out.pdf'', out)]
       \<and> (\<forall>s \<in> set out. \<forall>p \<in> set (draws s).
              plc_width p = Fin (59026264 / 300675) \<and> plc_height p = Fin 277.64))
   \<and> opt_padding double_options \<noteq> NaN
   \<and> padding_of double_options = opt_padding double_options
   \<and> opt_padding nan_options = NaN
   \<and> padding_of nan_options = Fin 0"
proof -
  let ?l = "run_locals five_pages double_options initial_world"
  have h: "1 \<le> getPageCount five_pages" by (simp add: five_count)
  have s1: "outputSize (opt_useA3 double_options) (pageSizes initial_world)
            = (Fin 841.89, Fin 595.28)"
    and s2: "outputSize (opt_useA3 nan_options) (pageSizes initial_world)
            = (Fin 841.89, Fin 595.28)"
    by (simp_all add: example_options nan_options_fields initial_world_fields initial_outputSize)
  note a = scale_is_min[OF h s1 five_first, of "''out.pdf''"]
  note b = scale_is_min[OF h s2 five_first, of "''out.pdf''"]
  have n1: "opt_padding double_options \<noteq> NaN" by (simp add: double_options_padding)
  have n2: "opt_padding nan_options = NaN" by (simp add: nan_options_fields)
  from a n1 have p1: "padding_of double_options = opt_padding double_options" by blast
  from b n2 have p2: "padding_of nan_options = Fin 0" by blast
  from a obtain out w' where run:
    "pdfToBooklet (Document five_pages) ''out.pdf'' double_options initial_world = (w', None)"
    "written w' = written initial_world @ [(''out.pdf'', out)]"
    "\<forall>s \<in> set out. \<forall>p \<in> set (draws s).
        plc_width p = js_mul (Fin 595.28) (l_scale ?l)
      \<and> plc_height p = js_mul (Fin 841.89) (l_scale ?l)"
    by blast
  have sc: "l_scale ?l = Fin (27764 / 84189)" by (rule example_scale)
  have e: "\<exists>out w'.
         pdfToBooklet (Document five_pages) ''out.pdf'' double_options initial_world = (w', None)
       \<and> written w' = [(''out.pdf'', out)]
       \<and> (\<forall>s \<in> set out. \<forall>p \<in> set (draws s).
              plc_width p = Fin (59026264 / 300675) \<and> plc_height p = Fin 277.64)"
    using run by (intro exI[of _ out] exI[of _ w']) (simp add: initial_world_fields sc)
  from h s1 s2 five_first sc e n1 p1 n2 p2 show ?thesis by (intro conjI)
qed

section \<open>Inputs without pages or with a degenerate first page\<close>



lemma initial_world_update:
  "initial_world\<lparr>pageSizes := ps, written := written initial_world @ x\<rparr>
     = \<lparr>pageSizes = ps, written = x, console = []\<rparr>"
  by (simp add: initial_world_def)

lemma reversed_initial:
  "reversed_in_place False initial_PageSizes = initial_PageSizes\<lparr>A4 := (Fin 841.89, Fin 595.28)\<rparr>"
  "reversed_in_place True initial_PageSizes = initial_PageSizes\<lparr>A3 := (Fin 1190.55, Fin 841.89)\<rparr>"
  by (simp_all add: reversed_in_place_def initial_PageSizes_def reverse_def)



section \<open>Batch mode\<close>

lemma processBatch_append:
  "processBatch (xs @ ys) outputDirectory opts w =
     (case processBatch xs outputDirectory opts w of
        (w1, None) \<Rightarrow> processBatch ys outputDirectory opts w1
      | (w1, Some e) \<Rightarrow> (w1, Some e))"
proof (induction xs arbitrary: w)
  case Nil
  show ?case by simp
next
  case (Cons x xs)
  obtain name content where x: "x = (name, content)" by (cases x) auto
  show ?case
    unfolding x
    by (simp add: Cons.IH Let_def split: prod.splits option.splits)
qed

lemma min_processBatch_append:
  "min_processBatch (xs @ ys) outputDirectory opts w =
     (case min_processBatch xs outputDirectory opts w of
        (w1, None) \<Rightarrow> min_processBatch ys outputDirectory opts w1
      | (w1, Some e) \<Rightarrow> (w1, Some e))"
proof (induction xs arbitrary: w)
  case Nil
  show ?case by simp
next
  case (Cons x xs)
  obtain name content where x: "x = (name, content)" by (cases x) auto
  show ?case
    unfolding x
    by (simp add: Cons.IH Let_def split: prod.splits option.splits)
qed

lemma pdfToBooklet_Corrupt:
  "pdfToBooklet Corrupt outputPath opts w = (w, Some LoadError)"
  "min_pdfToBooklet Corrupt outputPath opts w = (w, Some LoadError)"
  by (simp_all add: pdfToBooklet_def min_pdfToBooklet_def load_def)

lemma pdfToBooklet_failure_state:
  "pdfToBooklet content outputPath opts w = (w2, Some e) \<Longrightarrow> w2 = w"
  "min_pdfToBooklet content outputPath opts w = (w2, Some e) \<Longrightarrow> w2 = w"
  by (auto simp: pdfToBooklet_def min_pdfToBooklet_def Let_def split: sum.splits)

lemma pdf_names:
  "endsWith (toLowerCase ''a.pdf'') ''.pdf''" "endsWith (toLowerCase ''b.pdf'') ''.pdf''"
  "endsWith (toLowerCase ''c.pdf'') ''.pdf''"
  "parse_name ''a.pdf'' = ''a''" "parse_name ''b.pdf'' = ''b''" "parse_name ''c.pdf'' = ''c''"
  by (simp_all add: endsWith_def toLowerCase_def parse_name_def)

lemma first_of_three:
  "processBatch [(''a.pdf'', Document five_pages)] ''out'' plain_options initial_world =
     (\<lparr>pageSizes = reversed_in_place False initial_PageSizes,
       written =
         [(''out/a-booklet.pdf'',
           map (render_face (run_locals five_pages plain_options
                  (initial_world\<lparr>console := [Processing ''a.pdf'']\<rparr>)))
               (spec_layout 8))],
       console = [Processing ''a.pdf'', Created_booklet ''out/a-booklet.pdf'']\<rparr>,
      None)"
proof -
  have h: "1 \<le> getPageCount five_pages" by (simp add: five_count)
  show ?thesis
    by (simp add: pdf_names path_join_def Let_def pdfToBooklet_run[OF h] five_count
          example_options initial_world_def)
qed

lemma min_first_of_three:
  "min_processBatch [(''a.pdf'', Document five_pages)] ''out'' plain_options initial_world =
     (\<lparr>pageSizes = reversed_in_place False initial_PageSizes,
       written =
         [(''out/a-booklet.pdf'',
           map (min_render_face (min_run_locals five_pages plain_options
                  (initial_world\<lparr>console := [Processing ''a.pdf'']\<rparr>)))
               (spec_layout 8))],
       console = [Processing ''a.pdf'', Created_booklet ''out/a-booklet.pdf'']\<rparr>,
      None)"
proof -
  have h: "1 \<le> getPageCount five_pages" by (simp add: five_count)
  show ?thesis
    by (simp add: pdf_names path_join_def Let_def min_pdfToBooklet_run[OF h] five_count
          example_options initial_world_def)
qed

text \<open>
  Claim C6 asks that a failing document does not abort the batch. In both scripts the
  call of \<open>pdfToBooklet\<close> inside the loop of \<open>processBatch\<close> is not guarded, and the only
  handler is the one around the whole batch: of a valid, a corrupt and another valid file,
  in that order, only the first is converted, and the third, a five-page document, is never
  processed.
\<close>

theorem batch_aborts_counterexample:
  "three_files =
     [(''a.pdf'', Document five_pages), (''b.pdf'', Corrupt), (''c.pdf'', Document five_pages)]
   \<and> map fst (written (run_batch three_files ''out'' plain_options initial_world))
       = [''out/a-booklet.pdf'']
   \<and> console (run_batch three_files ''out'' plain_options initial_world)
       = [Processing ''a.pdf'', Created_booklet ''out/a-booklet.pdf'', Processing ''b.pdf'',
          Error_in_batch LoadError]
   \<and> map fst (written (min_run_batch three_files ''out'' plain_options initial_world))
       = [''out/a-booklet.pdf'']
   \<and> console (min_run_batch three_files ''out'' plain_options initial_world)
       = [Processing ''a.pdf'', Created_booklet ''out/a-booklet.pdf'', Processing ''b.pdf'',
          Error_in_batch LoadError]"
proof -
  have split: "three_files =
      [(''a.pdf'', Document five_pages)] @ [(''b.pdf'', Corrupt), (''c.pdf'', Document five_pages)]"
    by (simp add: three_files_def)
  have a: "processBatch three_files ''out'' plain_options initial_world =
     (\<lparr>pageSizes = reversed_in_place False initial_PageSizes,
       written =
         [(''out/a-booklet.pdf'',
           map (render_face (run_locals five_pages plain_options
                  (initial_world\<lparr>console := [Processing ''a.pdf'']\<rparr>)))
               (spec_layout 8))],
       console = [Processing ''a.pdf'', Created_booklet ''out/a-booklet.pdf'',
                  Processing ''b.pdf'']\<rparr>,
      Some LoadError)"
    unfolding split processBatch_append first_of_three
    by (simp add: pdf_names pdfToBooklet_Corrupt Let_def)
  have b: "min_processBatch three_files ''out'' plain_options initial_world =
     (\<lparr>pageSizes = reversed_in_place False initial_PageSizes,
       written =
         [(''out/a-booklet.pdf'',
           map (min_render_face (min_run_locals five_pages plain_options
                  (initial_world\<lparr>console := [Processing ''a.pdf'']\<rparr>)))
               (spec_layout 8))],
       console = [Processing ''a.pdf'', Created_booklet ''out/a-booklet.pdf'',
                  Processing ''b.pdf'']\<rparr>,
      Some LoadError)"
    unfolding split min_processBatch_append min_first_of_three
    by (simp add: pdf_names pdfToBooklet_Corrupt Let_def)
  show ?thesis
    by (simp add: run_batch_def min_run_batch_def a b) (simp add: three_files_def)
qed

text \<open>
  Claim C6, amended. In batch mode a failure while processing one document ends the batch:
  the documents before it are processed and their outputs written, the failing document
  and every document after it produce no output, and the failure is reported once, by the
  handler around the batch.
\<close>

theorem batch_stops_at_failure:
  assumes "endsWith (toLowerCase file) ''.pdf''"
  shows "(\<forall>w1 w2 e.
            processBatch before outputDirectory opts w = (w1, None)
          \<and> pdfToBooklet content
               (path_join outputDirectory (parse_name file @ ''-booklet.pdf'')) opts
               (w1\<lparr>console := console w1 @ [Processing file]\<rparr>) = (w2, Some e)
          \<longrightarrow>
            processBatch (before @ (file, content) # after) outputDirectory opts w = (w2, Some e)
          \<and> run_batch (before @ (file, content) # after) outputDirectory opts w
              = w1\<lparr>console := console w1 @ [Processing file, Error_in_batch e]\<rparr>
          \<and> written w2 = written w1)
       \<and> (\<forall>w1 w2 e.
            min_processBatch before outputDirectory opts w = (w1, None)
          \<and> min_pdfToBooklet content
               (path_join outputDirectory (parse_name file @ ''-booklet.pdf'')) opts
               (w1\<lparr>console := console w1 @ [Processing file]\<rparr>) = (w2, Some e)
          \<longrightarrow>
            min_processBatch (before @ (file, content) # after) outputDirectory opts w
              = (w2, Some e)
          \<and> min_run_batch (before @ (file, content) # after) outputDirectory opts w
              = w1\<lparr>console := console w1 @ [Processing file, Error_in_batch e]\<rparr>
          \<and> written w2 = written w1)"
proof -
  have first: "processBatch (before @ (file, content) # after) outputDirectory opts w = (w2, Some e)
          \<and> run_batch (before @ (file, content) # after) outputDirectory opts w
              = w1\<lparr>console := console w1 @ [Processing file, Error_in_batch e]\<rparr>
          \<and> written w2 = written w1"
    if "processBatch before outputDirectory opts w = (w1, None)"
      and "pdfToBooklet content
               (path_join outputDirectory (parse_name file @ ''-booklet.pdf'')) opts
               (w1\<lparr>console := console w1 @ [Processing file]\<rparr>) = (w2, Some e)"
    for w1 w2 e
  proof -
    have s: "w2 = w1\<lparr>console := console w1 @ [Processing file]\<rparr>"
      using pdfToBooklet_failure_state(1)[OF that(2)] .
    have p: "processBatch (before @ (file, content) # after) outputDirectory opts w = (w2, Some e)"
      using assms that by (simp add: processBatch_append Let_def)
    show ?thesis using p s by (simp add: run_batch_def)
  qed
  have second: "min_processBatch (before @ (file, content) # after) outputDirectory opts w
              = (w2, Some e)
          \<and> min_run_batch (before @ (file, content) # after) outputDirectory opts w
              = w1\<lparr>console := console w1 @ [Processing file, Error_in_batch e]\<rparr>
          \<and> written w2 = written w1"
    if "min_processBatch before outputDirectory opts w = (w1, None)"
      and "min_pdfToBooklet content
               (path_join outputDirectory (parse_name file @ ''-booklet.pdf'')) opts
               (w1\<lparr>console := console w1 @ [Processing file]\<rparr>) = (w2, Some e)"
    for w1 w2 e
  proof -
    have s: "w2 = w1\<lparr>console := console w1 @ [Processing file]\<rparr>"
      using pdfToBooklet_failure_state(2)[OF that(2)] .
    have p: "min_processBatch (before @ (file, content) # after) outputDirectory opts w
               = (w2, Some e)"
      using assms that by (simp add: min_processBatch_append Let_def)
    show ?thesis using p s by (simp add: min_run_batch_def)
  qed
  from first second show ?thesis by blast
qed

theorem batch_stops_at_failure_witness:
  "endsWith (toLowerCase ''b.pdf'') ''.pdf''
   \<and> snd (processBatch [(''a.pdf'', Document five_pages)] ''out'' plain_options initial_world)
       = None
   \<and> snd (pdfToBooklet Corrupt (path_join ''out'' (parse_name ''b.pdf'' @ ''-booklet.pdf''))
            plain_options
            ((fst (processBatch [(''a.pdf'', Document five_pages)] ''out'' plain_options
                     initial_world))
             \<lparr>console := [Processing ''a.pdf'', Created_booklet ''out/a-booklet.pdf'',
                          Processing ''b.pdf'']\<rparr>))
       = Some LoadError
   \<and> snd (processBatch
            ([(''a.pdf'', Document five_pages)] @ (''b.pdf'', Corrupt)
               # [(''c.pdf'', Document five_pages)])
            ''out'' plain_options initial_world)
       = Some LoadError
   \<and> map fst (written (run_batch
            ([(''a.pdf'', Document five_pages)] @ (''b.pdf'', Corrupt)
               # [(''c.pdf'', Document five_pages)])
            ''out'' plain_options initial_world))
       = [''out/a-booklet.pdf'']
   \<and> snd (min_processBatch
            ([(''a.pdf'', Document five_pages)] @ (''b.pdf'', Corrupt)
               # [(''c.pdf'', Document five_pages)])
            ''out'' plain_options initial_world)
       = Some LoadError"
proof -
  let ?before = "[(''a.pdf'', Document five_pages)]"
  let ?after = "[(''c.pdf'', Document five_pages)]"
  have h: "endsWith (toLowerCase ''b.pdf'') ''.pdf''" by (rule pdf_names)
  note t = batch_stops_at_failure[OF h, of ?before "''out''" plain_options initial_world
             Corrupt ?after]
  have "\<exists>w1. processBatch ?before ''out'' plain_options initial_world = (w1, None)
            \<and> map fst (written w1) = [''out/a-booklet.pdf'']"
    unfolding first_of_three by simp
  then obtain w1 where a: "processBatch ?before ''out'' plain_options initial_world = (w1, None)"
    and wr: "map fst (written w1) = [''out/a-booklet.pdf'']"
    by (elim exE conjE) (rule that)
  have b: "pdfToBooklet Corrupt (path_join ''out'' (parse_name ''b.pdf'' @ ''-booklet.pdf''))
             plain_options (w1\<lparr>console := console w1 @ [Processing ''b.pdf'']\<rparr>)
           = (w1\<lparr>console := console w1 @ [Processing ''b.pdf'']\<rparr>, Some LoadError)"
    by (rule pdfToBooklet_Corrupt)
  from t a b have r:
    "processBatch (?before @ (''b.pdf'', Corrupt) # ?after) ''out'' plain_options initial_world
       = (w1\<lparr>console := console w1 @ [Processing ''b.pdf'']\<rparr>, Some LoadError)"
    and rb:
    "run_batch (?before @ (''b.pdf'', Corrupt) # ?after) ''out'' plain_options initial_world
       = w1\<lparr>console := console w1 @ [Processing ''b.pdf'', Error_in_batch LoadError]\<rparr>"
    by blast+
  have "\<exists>m1. min_processBatch ?before ''out'' plain_options initial_world = (m1, None)"
    unfolding min_first_of_three by simp
  then obtain m1 where ma: "min_processBatch ?before ''out'' plain_options initial_world = (m1, None)"
    by (elim exE) (rule that)
  have mb: "min_pdfToBooklet Corrupt (path_join ''out'' (parse_name ''b.pdf'' @ ''-booklet.pdf''))
             plain_options (m1\<lparr>console := console m1 @ [Processing ''b.pdf'']\<rparr>)
           = (m1\<lparr>console := console m1 @ [Processing ''b.pdf'']\<rparr>, Some LoadError)"
    by (rule pdfToBooklet_Corrupt)
  from t ma mb have mr:
    "min_processBatch (?before @ (''b.pdf'', Corrupt) # ?after) ''out'' plain_options
        initial_world
       = (m1\<lparr>console := console m1 @ [Processing ''b.pdf'']\<rparr>, Some LoadError)"
    by blast
  have 1: "snd (processBatch ?before ''out'' plain_options initial_world) = None"
    unfolding a by simp
  have 2: "snd (pdfToBooklet Corrupt (path_join ''out'' (parse_name ''b.pdf'' @ ''-booklet.pdf''))
            plain_options
            ((fst (processBatch ?before ''out'' plain_options initial_world))
             \<lparr>console := [Processing ''a.pdf'', Created_booklet ''out/a-booklet.pdf'',
                          Processing ''b.pdf'']\<rparr>))
       = Some LoadError"
    unfolding pdfToBooklet_Corrupt by simp
  have 3: "snd (processBatch (?before @ (''b.pdf'', Corrupt) # ?after) ''out'' plain_options
                  initial_world) = Some LoadError"
    unfolding r by simp
  have 4: "map fst (written (run_batch (?before @ (''b.pdf'', Corrupt) # ?after) ''out''
                  plain_options initial_world)) = [''out/a-booklet.pdf'']"
    unfolding rb using wr by simp
  have 5: "snd (min_processBatch (?before @ (''b.pdf'', Corrupt) # ?after) ''out'' plain_options
                  initial_world) = Some LoadError"
    unfolding mr by simp
  from h 1 2 3 4 5 show ?thesis by (intro conjI)
qed

section \<open>The two stamps of double printing\<close>

lemma infinite_padding_fields:
  "opt_useA3 infinite_padding_options = False" "opt_double infinite_padding_options = True"
  "opt_padding infinite_padding_options = PInf" "padding_of infinite_padding_options = PInf"
  by (simp_all add: infinite_padding_options_def padding_of_def js_or_def)

lemma double_unpadded_fields:
  "opt_useA3 double_unpadded_options = False" "opt_double double_unpadded_options = True"
  "opt_padding double_unpadded_options = Fin 0" "padding_of double_unpadded_options = Fin 0"
  by (simp_all add: double_unpadded_options_def padding_of_def js_or_def)

lemma infinite_padding_scale:
  "l_scale (run_locals five_pages infinite_padding_options initial_world) = NInf"
  by (simp add: run_scale infinite_padding_fields initial_world_fields initial_outputSize
        five_first scale_def scaleX_def scaleY_def js_sub_def)

text \<open>
  Claim C5 has the two stamps of a slot differ in \<open>y\<close>. The second is placed at
  \<open>outputHeight / 2 + padding\<close>, which is the padding itself when the padding is infinite:
  with \<open>--double --padding Infinity\<close> the two placements of a slot are identical.
\<close>

theorem identical_stamps_counterexample:
  "opt_double infinite_padding_options
   \<and> opt_padding infinite_padding_options = PInf
   \<and> pdfToBooklet (Document five_pages) ''out.pdf'' infinite_padding_options initial_world =
       (\<lparr>pageSizes = initial_PageSizes\<lparr>A4 := (Fin 841.89, Fin 595.28)\<rparr>,
         written =
           [(''out.pdf'',
             map (spec_side (run_locals five_pages infinite_padding_options initial_world))
                 (spec_layout 8))],
         console = []\<rparr>,
        None)
   \<and> draws (spec_side (run_locals five_pages infinite_padding_options initial_world)
              (spec_layout 8 ! 0)) =
       [\<lparr>plc_x = PInf, plc_y = PInf, plc_width = NInf, plc_height = NInf, plc_page = 0\<rparr>,
        \<lparr>plc_x = PInf, plc_y = PInf, plc_width = NInf, plc_height = NInf, plc_page = 0\<rparr>]"
proof -
  have h: "1 \<le> getPageCount five_pages" by (simp add: five_count)
  have a: "pdfToBooklet (Document five_pages) ''out.pdf'' infinite_padding_options initial_world =
       (\<lparr>pageSizes = initial_PageSizes\<lparr>A4 := (Fin 841.89, Fin 595.28)\<rparr>,
         written =
           [(''out.pdf'',
             map (spec_side (run_locals five_pages infinite_padding_options initial_world))
                 (spec_layout 8))],
         console = []\<rparr>,
        None)"
    unfolding pdfToBooklet_run[OF h] initial_world_update
    by (simp add: five_count infinite_padding_fields reversed_initial initial_world_fields
          render_face_spec)
  have b: "draws (spec_side (run_locals five_pages infinite_padding_options initial_world)
              (spec_layout 8 ! 0)) =
       [\<lparr>plc_x = PInf, plc_y = PInf, plc_width = NInf, plc_height = NInf, plc_page = 0\<rparr>,
        \<lparr>plc_x = PInf, plc_y = PInf, plc_width = NInf, plc_height = NInf, plc_page = 0\<rparr>]"
    by (simp add: spec_layout_8 spec_side_def spec_slot_def spec_bottom_def spec_top_def
          spec_x_def run_locals_fields five_count infinite_padding_fields infinite_padding_scale
          initial_world_fields initial_outputSize five_first)
  from a b show ?thesis by (simp add: infinite_padding_fields)
qed

text \<open>
  Claim C5, amended. For a document of at least one page, the sides \<open>main.js\<close> writes carry
  exactly the placements the specification describes: a non-empty left slot at
  \<open>x = padding\<close>, a non-empty right slot at \<open>x = outputWidth / 2 + padding\<close>, the bottom
  stamp at \<open>y = padding\<close>, of width \<open>origWidth * scale\<close> and height \<open>origHeight * scale\<close>;
  with double printing each non-empty slot has exactly two instead of one, the second
  equal to the first in \<open>x\<close>, width, height and page and placed at
  \<open>y = outputHeight / 2 + padding\<close>. That sum differs from the padding when the padding is 0
  and the sheet height is between 1 and one million points; it is the padding, and the two
  stamps are identical, when the padding is infinite and the sheet height finite.
\<close>

theorem placement_geometry:
  assumes "1 \<le> getPageCount inputPdf"
  shows "(\<exists>out w'.
            pdfToBooklet (Document inputPdf) outputPath opts w = (w', None)
          \<and> written w' = written w @ [(outputPath, out)]
          \<and> out = map (spec_side (run_locals inputPdf opts w))
                       (spec_layout (finalPageCount (getPageCount inputPdf))))
       \<and> (\<forall>l sl n.
              length (spec_slot l sl n)
                = (if n < l_pageCount l then (if l_double l then 2 else 1) else 0)
            \<and> plc_x (spec_top l sl n) = plc_x (spec_bottom l sl n)
            \<and> plc_width (spec_top l sl n) = plc_width (spec_bottom l sl n)
            \<and> plc_height (spec_top l sl n) = plc_height (spec_bottom l sl n)
            \<and> plc_page (spec_top l sl n) = plc_page (spec_bottom l sl n)
            \<and> plc_y (spec_bottom l sl n) = l_padding l
            \<and> plc_y (spec_top l sl n) = js_add (js_div (l_outputHeight l) (Fin 2)) (l_padding l)
            \<and> (\<forall>h. l_outputHeight l = Fin h \<and> ordinary h \<and> l_padding l = Fin 0 \<longrightarrow>
                   plc_y (spec_top l sl n) \<noteq> plc_y (spec_bottom l sl n))
            \<and> (\<forall>h. l_outputHeight l = Fin h \<and> l_padding l = PInf \<longrightarrow>
                   spec_top l sl n = spec_bottom l sl n))"
proof -
  have first: "\<exists>out w'.
            pdfToBooklet (Document inputPdf) outputPath opts w = (w', None)
          \<and> written w' = written w @ [(outputPath, out)]
          \<and> out = map (spec_side (run_locals inputPdf opts w))
                       (spec_layout (finalPageCount (getPageCount inputPdf)))"
    unfolding pdfToBooklet_run[OF assms]
    apply (intro exI conjI)
      apply (rule refl)
     apply simp
    apply (simp add: render_face_spec)
    done
  have second: "\<forall>l sl n.
              length (spec_slot l sl n)
                = (if n < l_pageCount l then (if l_double l then 2 else 1) else 0)
            \<and> plc_x (spec_top l sl n) = plc_x (spec_bottom l sl n)
            \<and> plc_width (spec_top l sl n) = plc_width (spec_bottom l sl n)
            \<and> plc_height (spec_top l sl n) = plc_height (spec_bottom l sl n)
            \<and> plc_page (spec_top l sl n) = plc_page (spec_bottom l sl n)
            \<and> plc_y (spec_bottom l sl n) = l_padding l
            \<and> plc_y (spec_top l sl n) = js_add (js_div (l_outputHeight l) (Fin 2)) (l_padding l)
            \<and> (\<forall>h. l_outputHeight l = Fin h \<and> ordinary h \<and> l_padding l = Fin 0 \<longrightarrow>
                   plc_y (spec_top l sl n) \<noteq> plc_y (spec_bottom l sl n))
            \<and> (\<forall>h. l_outputHeight l = Fin h \<and> l_padding l = PInf \<longrightarrow>
                   spec_top l sl n = spec_bottom l sl n)"
    by (auto simp: spec_slot_def spec_top_def spec_bottom_def ordinary_def)
  from first second show ?thesis by (rule conjI)
qed

theorem placement_geometry_witness:
  "1 \<le> getPageCount five_pages
   \<and> (\<exists>out w'.
         pdfToBooklet (Document five_pages) ''out.pdf'' double_options initial_world = (w', None)
       \<and> written w' = [(''out.pdf'', out)]
       \<and> draws (out ! 3) =
           [\<lparr>plc_x = Fin 10, plc_y = Fin 10, plc_width = Fin (59026264 / 300675),
              plc_height = Fin 277.64, plc_page = 3\<rparr>,
            \<lparr>plc_x = Fin 10, plc_y = Fin 307.64, plc_width = Fin (59026264 / 300675),
              plc_height = Fin 277.64, plc_page = 3\<rparr>,
            \<lparr>plc_x = Fin 430.945, plc_y = Fin 10, plc_width = Fin (59026264 / 300675),
              plc_height = Fin 277.64, plc_page = 4\<rparr>,
            \<lparr>plc_x = Fin 430.945, plc_y = Fin 307.64, plc_width = Fin (59026264 / 300675),
              plc_height = Fin 277.64, plc_page = 4\<rparr>])
   \<and> l_outputHeight (run_locals five_pages double_unpadded_options initial_world) = Fin 595.28
   \<and> ordinary 595.28
   \<and> l_padding (run_locals five_pages double_unpadded_options initial_world) = Fin 0
   \<and> plc_y (spec_top (run_locals five_pages double_unpadded_options initial_world) LeftSlot 3)
       \<noteq> plc_y (spec_bottom (run_locals five_pages double_unpadded_options initial_world)
                 LeftSlot 3)
   \<and> l_outputHeight (run_locals five_pages infinite_padding_options initial_world) = Fin 595.28
   \<and> l_padding (run_locals five_pages infinite_padding_options initial_world) = PInf
   \<and> spec_top (run_locals five_pages infinite_padding_options initial_world) LeftSlot 3
       = spec_bottom (run_locals five_pages infinite_padding_options initial_world) LeftSlot 3"
proof -
  let ?l = "run_locals five_pages double_options initial_world"
  let ?z = "run_locals five_pages double_unpadded_options initial_world"
  let ?i = "run_locals five_pages infinite_padding_options initial_world"
  have h: "1 \<le> getPageCount five_pages" by (simp add: five_count)
  have zh: "l_outputHeight ?z = Fin 595.28" and zp: "l_padding ?z = Fin 0"
    and ih: "l_outputHeight ?i = Fin 595.28" and ip: "l_padding ?i = PInf"
    by (simp_all add: run_locals_fields double_unpadded_fields infinite_padding_fields
          initial_world_fields initial_outputSize)
  have ord: "ordinary 595.28" by (simp add: ordinary_def)
  note g = placement_geometry[OF h, of "''out.pdf''" double_options initial_world]
  from g obtain out w' where run:
    "pdfToBooklet (Document five_pages) ''out.pdf'' double_options initial_world = (w', None)"
    "written w' = written initial_world @ [(''out.pdf'', out)]"
    "out = map (spec_side ?l) (spec_layout (finalPageCount (getPageCount five_pages)))"
    by blast
  have d: "draws (out ! 3) =
           [\<lparr>plc_x = Fin 10, plc_y = Fin 10, plc_width = Fin (59026264 / 300675),
              plc_height = Fin 277.64, plc_page = 3\<rparr>,
            \<lparr>plc_x = Fin 10, plc_y = Fin 307.64, plc_width = Fin (59026264 / 300675),
              plc_height = Fin 277.64, plc_page = 3\<rparr>,
            \<lparr>plc_x = Fin 430.945, plc_y = Fin 10, plc_width = Fin (59026264 / 300675),
              plc_height = Fin 277.64, plc_page = 4\<rparr>,
            \<lparr>plc_x = Fin 430.945, plc_y = Fin 307.64, plc_width = Fin (59026264 / 300675),
              plc_height = Fin 277.64, plc_page = 4\<rparr>]"
    unfolding run(3)
    by (simp add: five_count spec_layout_8 spec_side_def spec_slot_def spec_bottom_def
          spec_top_def spec_x_def run_locals_fields example_options example_scale
          initial_world_fields initial_outputSize five_first)
  have e: "\<exists>out w'.
         pdfToBooklet (Document five_pages) ''out.pdf'' double_options initial_world = (w', None)
       \<and> written w' = [(''out.pdf'', out)]
       \<and> draws (out ! 3) =
           [\<lparr>plc_x = Fin 10, plc_y = Fin 10, plc_width = Fin (59026264 / 300675),
              plc_height = Fin 277.64, plc_page = 3\<rparr>,
            \<lparr>plc_x = Fin 10, plc_y = Fin 307.64, plc_width = Fin (59026264 / 300675),
              plc_height = Fin 277.64, plc_page = 3\<rparr>,
            \<lparr>plc_x = Fin 430.945, plc_y = Fin 10, plc_width = Fin (59026264 / 300675),
              plc_height = Fin 277.64, plc_page = 4\<rparr>,
            \<lparr>plc_x = Fin 430.945, plc_y = Fin 307.64, plc_width = Fin (59026264 / 300675),
              plc_height = Fin 277.64, plc_page = 4\<rparr>]"
    using run(1,2) d by (intro exI[of _ out] exI[of _ w']) (simp add: initial_world_fields)
  from g have differ: "\<forall>h. l_outputHeight ?z = Fin h \<and> ordinary h \<and> l_padding ?z = Fin 0 \<longrightarrow>
      plc_y (spec_top ?z LeftSlot 3) \<noteq> plc_y (spec_bottom ?z LeftSlot 3)"
    by blast
  from zh ord zp have "l_outputHeight ?z = Fin 595.28 \<and> ordinary 595.28 \<and> l_padding ?z = Fin 0"
    by (intro conjI)
  with differ have f: "plc_y (spec_top ?z LeftSlot 3) \<noteq> plc_y (spec_bottom ?z LeftSlot 3)"
    by blast
  from g have same: "\<forall>h. l_outputHeight ?i = Fin h \<and> l_padding ?i = PInf \<longrightarrow>
      spec_top ?i LeftSlot 3 = spec_bottom ?i LeftSlot 3"
    by blast
  from ih ip have "l_outputHeight ?i = Fin 595.28 \<and> l_padding ?i = PInf" by (intro conjI)
  with same have i: "spec_top ?i LeftSlot 3 = spec_bottom ?i LeftSlot 3" by blast
  from h e zh ord zp f ih ip i show ?thesis by (intro conjI)
qed

section \<open>The page-size table across runs\<close>

text \<open>
  \<open>PageSizes.A4.reverse()\<close> reverses the library's array itself. The first run of a
  process resolves the landscape sheet and leaves the table entry reversed; a second run
  in the same process, as in batch mode, reverses it back and resolves the portrait sheet,
  with a different scale for the same document and options.
\<close>

lemma second_run_portrait:
  "outputSize False (pageSizes initial_world) = (Fin 841.89, Fin 595.28)
   \<and> pageSizes (fst (pdfToBooklet (Document five_pages) ''a.pdf'' plain_options initial_world))
       = initial_PageSizes\<lparr>A4 := (Fin 841.89, Fin 595.28)\<rparr>
   \<and> outputSize False
         (pageSizes (fst (pdfToBooklet (Document five_pages) ''a.pdf'' plain_options
                            initial_world)))
       = (Fin 595.28, Fin 841.89)
   \<and> l_scale (run_locals five_pages plain_options initial_world) = Fin (8504 / 12027)
   \<and> l_scale (run_locals five_pages plain_options
                (fst (pdfToBooklet (Document five_pages) ''a.pdf'' plain_options initial_world)))
       = Fin (1 / 2)"
proof -
  have h: "1 \<le> getPageCount five_pages" by (simp add: five_count)
  have sz: "outputSize False (sizes\<lparr>A4 := (a, b)\<rparr>) = (b, a)" for sizes a b
    by (simp add: outputSize_def reverse_def)
  show ?thesis
    unfolding pdfToBooklet_run[OF h]
    by (simp add: run_scale example_options initial_world_fields initial_outputSize
          reversed_initial sz five_first scale_def scaleX_def scaleY_def js_sub_def)
qed

section \<open>The sign of the scale, and the scale without padding\<close>

lemma wide_padding_fields:
  "opt_useA3 wide_padding_options = False" "opt_double wide_padding_options = False"
  "padding_of wide_padding_options = Fin 250"
  by (simp_all add: wide_padding_options_def padding_of_def js_or_def)

text \<open>
  Claim C8 asks for a positive scale whenever the padding is below half the sheet
  dimension, and for the same scale from two runs on identical inputs. The horizontal term
  subtracts twice the padding from half the width, so it is negative already for a padding
  above a quarter of the width: an A4 page on an A4 sheet with a padding of 250 points,
  below half of either sheet dimension, has a negative scale. And two runs of one process
  on the same document with the same options resolve different sheets, the second after
  the first has reversed the table entry, and so compute different scales.
\<close>

theorem scale_negative_counterexample:
  "(0::real) < 595.28 \<and> (0::real) < 841.89
   \<and> five_pages ! 0 = (Fin 595.28, Fin 841.89)
   \<and> outputSize (opt_useA3 wide_padding_options) (pageSizes initial_world)
       = (Fin 841.89, Fin 595.28)
   \<and> padding_of wide_padding_options = Fin 250
   \<and> (0::real) \<le> 250 \<and> (250::real) < 841.89 / 2 \<and> (250::real) < 595.28 / 2
   \<and> l_scale (run_locals five_pages wide_padding_options initial_world) = Fin (- (15811 / 119056))
   \<and> \<not> (0::real) < - (15811 / 119056)
   \<and> l_scale (run_locals five_pages plain_options initial_world) = Fin (8504 / 12027)
   \<and> l_scale (run_locals five_pages plain_options
                (fst (pdfToBooklet (Document five_pages) ''a.pdf'' plain_options initial_world)))
       = Fin (1 / 2)
   \<and> l_scale (run_locals five_pages plain_options initial_world)
       \<noteq> l_scale (run_locals five_pages plain_options
                (fst (pdfToBooklet (Document five_pages) ''a.pdf'' plain_options
                        initial_world)))"
proof -
  have a: "(0::real) < 595.28 \<and> (0::real) < 841.89
   \<and> five_pages ! 0 = (Fin 595.28, Fin 841.89)
   \<and> outputSize (opt_useA3 wide_padding_options) (pageSizes initial_world)
       = (Fin 841.89, Fin 595.28)
   \<and> padding_of wide_padding_options = Fin 250
   \<and> (0::real) \<le> 250 \<and> (250::real) < 841.89 / 2 \<and> (250::real) < 595.28 / 2
   \<and> l_scale (run_locals five_pages wide_padding_options initial_world) = Fin (- (15811 / 119056))
   \<and> \<not> (0::real) < - (15811 / 119056)"
    by (simp add: run_scale wide_padding_fields initial_world_fields initial_outputSize
          five_first scale_def scaleX_def scaleY_def js_sub_def)
  have b: "l_scale (run_locals five_pages plain_options initial_world) = Fin (8504 / 12027)"
    and c: "l_scale (run_locals five_pages plain_options
                (fst (pdfToBooklet (Document five_pages) ''a.pdf'' plain_options initial_world)))
       = Fin (1 / 2)"
    using second_run_portrait by blast+
  have d: "l_scale (run_locals five_pages plain_options initial_world)
       \<noteq> l_scale (run_locals five_pages plain_options
                (fst (pdfToBooklet (Document five_pages) ''a.pdf'' plain_options
                        initial_world)))"
    unfolding b c by simp
  from a b c d show ?thesis by simp
qed

text \<open>
  Claim C8, amended. For sheet and first-page dimensions between 1 and one million points
  and a padding with \<open>0 \<le> padding\<close>, \<open>padding * 2 < outputWidth / 2\<close> and
  \<open>padding * 2 < outputHeight\<close> (\<open>outputHeight / 2\<close> with double printing), the scale is
  strictly positive. The scale is a function of the resolved sheet size, the padding, the
  double-printing flag and the first page's size: two runs that agree on these compute the
  identical scale.
\<close>

theorem scale_positive:
  assumes "ordinary outputWidth" "ordinary outputHeight"
    and "ordinary origWidth" "ordinary origHeight"
    and "0 \<le> padding"
    and "padding * 2 < outputWidth / 2"
    and "padding * 2 < (if dbl then outputHeight / 2 else outputHeight)"
  shows "(\<exists>s. scale dbl (Fin outputWidth) (Fin outputHeight) (Fin padding)
                 (Fin origWidth) (Fin origHeight) = Fin s \<and> 0 < s)
       \<and> (\<forall>inputPdf inputPdf' opts opts' w w'.
              outputSize (opt_useA3 opts) (pageSizes w)
                = outputSize (opt_useA3 opts') (pageSizes w')
            \<and> padding_of opts = padding_of opts'
            \<and> opt_double opts = opt_double opts'
            \<and> inputPdf ! 0 = inputPdf' ! 0
            \<longrightarrow> l_scale (run_locals inputPdf opts w) = l_scale (run_locals inputPdf' opts' w'))"
proof -
  have ow: "0 < origWidth" and oh: "0 < origHeight"
    using assms(3,4) by (simp_all add: ordinary_def)
  have x: "0 < (outputWidth / 2 - padding * 2) / origWidth"
    using ow assms(6) by simp
  have y: "0 < (if dbl then (outputHeight / 2 - padding * 2) / origHeight
                else (outputHeight - padding * 2) / origHeight)"
    using oh assms(7) by (simp split: if_splits)
  have "scale dbl (Fin outputWidth) (Fin outputHeight) (Fin padding)
          (Fin origWidth) (Fin origHeight)
        = Fin (min ((outputWidth / 2 - padding * 2) / origWidth)
                   (if dbl then (outputHeight / 2 - padding * 2) / origHeight
                    else (outputHeight - padding * 2) / origHeight))"
    using ow oh by (simp add: scale_def scaleX_def scaleY_def js_sub_def)
  moreover have "0 < min ((outputWidth / 2 - padding * 2) / origWidth)
                   (if dbl then (outputHeight / 2 - padding * 2) / origHeight
                    else (outputHeight - padding * 2) / origHeight)"
    using x y by simp
  ultimately have first: "\<exists>s. scale dbl (Fin outputWidth) (Fin outputHeight) (Fin padding)
                 (Fin origWidth) (Fin origHeight) = Fin s \<and> 0 < s"
    by blast
  have second: "\<forall>inputPdf inputPdf' opts opts' w w'.
              outputSize (opt_useA3 opts) (pageSizes w)
                = outputSize (opt_useA3 opts') (pageSizes w')
            \<and> padding_of opts = padding_of opts'
            \<and> opt_double opts = opt_double opts'
            \<and> inputPdf ! 0 = inputPdf' ! 0
            \<longrightarrow> l_scale (run_locals inputPdf opts w) = l_scale (run_locals inputPdf' opts' w')"
    by (simp add: run_scale)
  from first second show ?thesis by (rule conjI)
qed

theorem scale_positive_witness:
  "ordinary 841.89 \<and> ordinary 595.28
   \<and> (0::real) \<le> 10
   \<and> (10::real) * 2 < 841.89 / 2
   \<and> (10::real) * 2 < (if True then 595.28 / 2 else 595.28)
   \<and> scale True (Fin 841.89) (Fin 595.28) (Fin 10) (Fin 595.28) (Fin 841.89)
       = Fin (27764 / 84189)
   \<and> (0::real) < 27764 / 84189
   \<and> outputSize (opt_useA3 double_options) (pageSizes initial_world)
       = outputSize (opt_useA3 (double_options\<lparr>opt_debug := True\<rparr>))
           (pageSizes (initial_world\<lparr>console := [Batch_completed]\<rparr>))
   \<and> padding_of double_options = padding_of (double_options\<lparr>opt_debug := True\<rparr>)
   \<and> opt_double double_options = opt_double (double_options\<lparr>opt_debug := True\<rparr>)
   \<and> five_pages ! 0 = one_page ! 0
   \<and> l_scale (run_locals five_pages double_options initial_world)
       = l_scale (run_locals one_page (double_options\<lparr>opt_debug := True\<rparr>)
                   (initial_world\<lparr>console := [Batch_completed]\<rparr>))"
proof -
  have a: "ordinary 841.89" and b: "ordinary 595.28"
    and p: "(0::real) \<le> 10"
    and c: "(10::real) * 2 < 841.89 / 2"
    and d: "(10::real) * 2 < (if True then 595.28 / 2 else 595.28)"
    by (simp_all add: ordinary_def)
  note t = scale_positive[OF a b b a p c d]
  have e: "scale True (Fin 841.89) (Fin 595.28) (Fin 10) (Fin 595.28) (Fin 841.89)
           = Fin (27764 / 84189)"
    by (simp add: scale_def scaleX_def scaleY_def js_sub_def)
  have f: "(0::real) < 27764 / 84189"
    using t e by auto
  have g1: "outputSize (opt_useA3 double_options) (pageSizes initial_world)
       = outputSize (opt_useA3 (double_options\<lparr>opt_debug := True\<rparr>))
           (pageSizes (initial_world\<lparr>console := [Batch_completed]\<rparr>))"
    and g2: "padding_of double_options = padding_of (double_options\<lparr>opt_debug := True\<rparr>)"
    and g3: "opt_double double_options = opt_double (double_options\<lparr>opt_debug := True\<rparr>)"
    and g4: "five_pages ! 0 = one_page ! 0"
    by (simp_all add: padding_of_def five_pages_def one_page_def)
  from t g1 g2 g3 g4 have h: "l_scale (run_locals five_pages double_options initial_world)
       = l_scale (run_locals one_page (double_options\<lparr>opt_debug := True\<rparr>)
                   (initial_world\<lparr>console := [Batch_completed]\<rparr>))"
    by blast
  from a b p c d e f g1 g2 g3 g4 h show ?thesis by (intro conjI)
qed

lemma js_add_zero_right: "js_add p (Fin 0) = p"
  by (cases p) simp_all

lemma js_sub_zero: "js_sub a (Fin 0) = a"
  by (simp add: js_sub_def js_add_zero_right)

lemma scaleY_no_padding:
  "scaleY False outputHeight (Fin 0) origHeight = min_scaleY outputHeight origHeight"
  by (simp add: scaleY_def min_scaleY_def js_sub_zero)

text \<open>
  Claim C9 says that with \<open>padding = 0\<close> and no double printing the vertical term differs
  from the minimal script's \<open>outputHeight / origHeight\<close>. It is equal to it.
\<close>

theorem vertical_term_reduces_counterexample:
  "(0::real) < 595.28 \<and> (0::real) < 841.89
   \<and> scaleY False (Fin 595.28) (Fin 0) (Fin 841.89) = min_scaleY (Fin 595.28) (Fin 841.89)
   \<and> scaleY False (Fin 595.28) (Fin 0) (Fin 841.89) = Fin (595.28 / 841.89)"
  by (simp add: scaleY_def min_scaleY_def js_sub_def)

text \<open>
  Claim C9, amended. With \<open>padding = 0\<close>, and for sheet and first-page dimensions between 1
  and one million points, the horizontal term of \<open>main.js\<close> equals the minimal script's
  \<open>outputWidth / (2 * origWidth)\<close>. Without double printing the vertical term is the
  minimal script's \<open>outputHeight / origHeight\<close>, for every value of the two. The two scripts
  differ with double printing, where the vertical term is \<open>(outputHeight / 2) / origHeight\<close>,
  which for dimensions in that range is not the minimal script's.
\<close>

theorem padding_zero_reduction:
  "(\<forall>outputWidth origWidth.
       ordinary outputWidth \<and> ordinary origWidth \<longrightarrow>
       scaleX (Fin outputWidth) (Fin 0) (Fin origWidth)
         = min_scaleX (Fin outputWidth) (Fin origWidth))
   \<and> scaleY False outputHeight (Fin 0) origHeight = min_scaleY outputHeight origHeight
   \<and> scaleY True outputHeight (Fin 0) origHeight
       = js_div (js_div outputHeight (Fin 2)) origHeight
   \<and> (\<forall>h oh. ordinary h \<and> ordinary oh \<longrightarrow>
          scaleY True (Fin h) (Fin 0) (Fin oh) \<noteq> min_scaleY (Fin h) (Fin oh))"
proof -
  have first: "\<forall>outputWidth origWidth.
       ordinary outputWidth \<and> ordinary origWidth \<longrightarrow>
       scaleX (Fin outputWidth) (Fin 0) (Fin origWidth)
         = min_scaleX (Fin outputWidth) (Fin origWidth)"
    by (simp add: scaleX_def min_scaleX_def js_sub_zero ordinary_def)
  have third: "scaleY True outputHeight (Fin 0) origHeight
       = js_div (js_div outputHeight (Fin 2)) origHeight"
    by (simp add: scaleY_def js_sub_zero)
  have fourth: "\<forall>h oh. ordinary h \<and> ordinary oh \<longrightarrow>
          scaleY True (Fin h) (Fin 0) (Fin oh) \<noteq> min_scaleY (Fin h) (Fin oh)"
    by (auto simp: scaleY_def min_scaleY_def js_sub_def ordinary_def)
  from first scaleY_no_padding third fourth show ?thesis by (intro conjI)
qed

theorem padding_zero_reduction_witness:
  "ordinary 841.89 \<and> ordinary 595.28
   \<and> scaleX (Fin 841.89) (Fin 0) (Fin 595.28) = min_scaleX (Fin 841.89) (Fin 595.28)
   \<and> scaleY False (Fin 595.28) (Fin 0) (Fin 841.89) = min_scaleY (Fin 595.28) (Fin 841.89)
   \<and> scaleY True (Fin 595.28) (Fin 0) (Fin 841.89)
       = js_div (js_div (Fin 595.28) (Fin 2)) (Fin 841.89)
   \<and> scaleY True (Fin 595.28) (Fin 0) (Fin 841.89) \<noteq> min_scaleY (Fin 595.28) (Fin 841.89)"
proof -
  have a: "ordinary 841.89" and b: "ordinary 595.28" by (simp_all add: ordinary_def)
  note t = padding_zero_reduction[of "Fin 595.28" "Fin 841.89"]
  from t a b have x: "scaleX (Fin 841.89) (Fin 0) (Fin 595.28) = min_scaleX (Fin 841.89) (Fin 595.28)"
    by blast
  from t have y: "scaleY False (Fin 595.28) (Fin 0) (Fin 841.89) = min_scaleY (Fin 595.28) (Fin 841.89)"
    and z: "scaleY True (Fin 595.28) (Fin 0) (Fin 841.89)
       = js_div (js_div (Fin 595.28) (Fin 2)) (Fin 841.89)"
    by blast+
  from t a b have n: "scaleY True (Fin 595.28) (Fin 0) (Fin 841.89) \<noteq> min_scaleY (Fin 595.28) (Fin 841.89)"
    by blast
  from a b x y z n show ?thesis by (intro conjI)
qed

section \<open>No validation of the input\<close>







end
